theory Spec2Isabelle
  imports Main "HOL-Library.AList" "HOL-Library.Sublist" "HOL-Library.Word"
begin

section \<open>Values and exceptions\<close>

text \<open>
  The transformation \<^verbatim>\<open>stac_transform\<close> of \<^verbatim>\<open>libs/index/odc/index/stac.py\<close> takes a
  STAC item as a Python dictionary decoded from JSON and returns another dictionary.
  A value of that kind is a \<open>json\<close>: \<^verbatim>\<open>None\<close>, a bool, an int, a float, a str, a list
  or a dict with string keys. A dict is the list of its entries in insertion order
  (\<open>map_of\<close> reads it, \<open>AList.update\<close> is \<^verbatim>\<open>d[k] = v\<close>, \<open>AList.delete\<close> is
  \<^verbatim>\<open>del d[k]\<close>); the dictionaries of an input have no key twice. Python's int is
  unbounded, so it is \<open>int\<close>. A float is its 64 bits; the code only copies and prints
  floats, and what printing a float gives is a parameter of the model. A str is a list of
  characters; only the letters A to Z have a lower case here.
\<close>

type_synonym pyfloat = "64 word"

datatype json =
    JNull
  | JBool bool
  | JInt int
  | JFloat pyfloat
  | JStr string
  | JArr "json list"
  | JObj "(string \<times> json) list"

text \<open>
  The exceptions the code can raise. A \<^verbatim>\<open>KeyError\<close> carries the key that was not found.
  \<open>LibraryError\<close> stands for whatever the geometry library raises.
\<close>

datatype error =
    KeyError json
  | IndexError
  | TypeError
  | AttributeError
  | ValueError
  | OverflowError
  | LibraryError string

type_synonym 'a result = "error + 'a"

definition and_then :: "'a result \<Rightarrow> ('a \<Rightarrow> 'b result) \<Rightarrow> 'b result" where
  "and_then m f = (case m of Inl e \<Rightarrow> Inl e | Inr x \<Rightarrow> f x)"

text \<open>\<^verbatim>\<open>x[k]\<close> for a string \<open>k\<close>: only a dict can be read that way.\<close>

fun getitem :: "json \<Rightarrow> string \<Rightarrow> json result" where
  "getitem (JObj kvs) k = (case map_of kvs k of None \<Rightarrow> Inl (KeyError (JStr k)) | Some v \<Rightarrow> Inr v)"
| "getitem _ k = Inl TypeError"

text \<open>
  \<^verbatim>\<open>x[0]\<close>: the first element of a list, the first character of a str; a dict decoded
  from JSON has no key \<open>0\<close>.
\<close>

fun getitem0 :: "json \<Rightarrow> json result" where
  "getitem0 (JArr []) = Inl IndexError"
| "getitem0 (JArr (v # vs)) = Inr v"
| "getitem0 (JStr []) = Inl IndexError"
| "getitem0 (JStr (c # cs)) = Inr (JStr [c])"
| "getitem0 (JObj kvs) = Inl (KeyError (JInt 0))"
| "getitem0 _ = Inl TypeError"

text \<open>\<^verbatim>\<open>x.items()\<close>: only a dict has the method.\<close>

fun items :: "json \<Rightarrow> (string \<times> json) list result" where
  "items (JObj kvs) = Inr kvs"
| "items _ = Inl AttributeError"

subsection \<open>Strings\<close>

definition upper_case :: string where
  "upper_case = ''ABCDEFGHIJKLMNOPQRSTUVWXYZ''"

definition lower_case :: string where
  "lower_case = ''abcdefghijklmnopqrstuvwxyz''"

definition lower_char :: "char \<Rightarrow> char" where
  "lower_char c = (case map_of (zip upper_case lower_case) c of None \<Rightarrow> c | Some d \<Rightarrow> d)"

text \<open>\<^verbatim>\<open>x.lower()\<close>: a method of str.\<close>

fun lower :: "json \<Rightarrow> json result" where
  "lower (JStr s) = Inr (JStr (map lower_char s))"
| "lower _ = Inl AttributeError"

text \<open>
  \<^verbatim>\<open>s.replace(old, new)\<close> on strings: every occurrence of \<open>old\<close>, found from the left
  and not overlapping an earlier one, becomes \<open>new\<close>. With an empty \<open>old\<close>, \<open>new\<close> is
  put before every character and at the end.
\<close>

function str_replace :: "string \<Rightarrow> string \<Rightarrow> string \<Rightarrow> string" where
  "str_replace s old new =
     (if old = [] then new @ concat (map (\<lambda>c. c # new) s)
      else if s = [] then []
      else if prefix old s then new @ str_replace (drop (length old) s) old new
      else hd s # str_replace (tl s) old new)"
  by pat_completeness auto
termination
  by (relation "measure (\<lambda>(s, old, new). length s)") (auto simp: neq_Nil_conv)

declare str_replace.simps [simp del]

text \<open>\<^verbatim>\<open>x.replace(old, new)\<close>: a method of str.\<close>

fun replace :: "json \<Rightarrow> string \<Rightarrow> string \<Rightarrow> json result" where
  "replace (JStr s) old new = Inr (JStr (str_replace s old new))"
| "replace _ old new = Inl AttributeError"

text \<open>\<^verbatim>\<open>s[-2:]\<close>: the last two characters, or all of a shorter string.\<close>

definition last_two :: "string \<Rightarrow> string" where
  "last_two s = drop (length s - 2) s"

text \<open>
  \<^verbatim>\<open>Path(p).name\<close> on a POSIX path: the last component of the path, where empty
  components and \<^verbatim>\<open>.\<close> do not count; the empty string when there is none.
  \<^verbatim>\<open>Path\<close> takes a str only.
\<close>

fun split_on :: "char \<Rightarrow> string \<Rightarrow> string list" where
  "split_on d [] = [[]]"
| "split_on d (c # cs) =
     (if c = d then [] # split_on d cs
      else (case split_on d cs of [] \<Rightarrow> [[c]] | p # ps \<Rightarrow> (c # p) # ps))"

definition path_parts :: "string \<Rightarrow> string list" where
  "path_parts p = filter (\<lambda>q. q \<noteq> [] \<and> q \<noteq> ''.'') (split_on (CHR ''/'') p)"

fun path_name :: "json \<Rightarrow> json result" where
  "path_name (JStr p) = Inr (JStr (if path_parts p = [] then [] else last (path_parts p)))"
| "path_name _ = Inl TypeError"

subsection \<open>Numbers as text\<close>

definition digit_char :: "nat \<Rightarrow> char" where
  "digit_char d = ''0123456789'' ! d"

fun digits :: "nat \<Rightarrow> string" where
  "digits n = (if n < 10 then [digit_char n] else digits (n div 10) @ [digit_char (n mod 10)])"

declare digits.simps [simp del]

text \<open>\<^verbatim>\<open>str(n)\<close> of an int.\<close>

definition str_int :: "int \<Rightarrow> string" where
  "str_int n = (if n < 0 then CHR ''-'' # digits (nat (- n)) else digits (nat n))"

text \<open>
  \<^verbatim>\<open>float(n)\<close> of an int \<open>n \<ge> 0\<close>, as the integer it is worth: \<open>n\<close> rounded to 53
  significant bits, a tie going to the even one; \<open>None\<close> is the \<^verbatim>\<open>OverflowError\<close> of an
  int beyond the largest float.
\<close>

fun bit_length :: "nat \<Rightarrow> nat" where
  "bit_length n = (if n = 0 then 0 else Suc (bit_length (n div 2)))"

declare bit_length.simps [simp del]

definition round_half_even :: "nat \<Rightarrow> nat \<Rightarrow> nat" where
  "round_half_even n p =
     (let q = n div p; r = n mod p
      in if p < 2 * r \<or> (2 * r = p \<and> odd q) then q + 1 else q)"

definition float_of_nat :: "nat \<Rightarrow> nat option" where
  "float_of_nat n =
     (if bit_length n \<le> 53 then Some n
      else let p = 2 ^ (bit_length n - 53); v = round_half_even n p * p
           in if 2 ^ 1024 \<le> v then None else Some v)"

text \<open>
  \<^verbatim>\<open>format(v, 'g')\<close> of a float worth the integer \<open>v \<ge> 0\<close>: six significant digits,
  a tie going to the even one. Below a million that is the integer as it is; from a
  million on it is the mantissa without its trailing zeros, \<^verbatim>\<open>e+\<close> and the decimal
  exponent in two digits at least.
\<close>

definition strip_zeros :: "string \<Rightarrow> string" where
  "strip_zeros s = rev (dropWhile (\<lambda>c. c = CHR ''0'') (rev s))"

definition format_g_nat :: "nat \<Rightarrow> string" where
  "format_g_nat v =
     (let x = length (digits v) - 1
      in if x < 6 then digits v
         else let m = round_half_even v (10 ^ (x - 5));
                  m' = (if m = 10 ^ 6 then 10 ^ 5 else m);
                  x' = (if m = 10 ^ 6 then x + 1 else x);
                  frac = strip_zeros (tl (digits m'));
                  ex = digits x'
              in hd (digits m') # (if frac = [] then [] else CHR ''.'' # frac)
                 @ ''e+'' @ (if length ex < 2 then CHR ''0'' # ex else ex))"

text \<open>\<^verbatim>\<open>format(n, 'g')\<close> of an int: the int becomes a float first.\<close>

definition format_g_int :: "int \<Rightarrow> string result" where
  "format_g_int n =
     (case float_of_nat (nat \<bar>n\<bar>) of
        None \<Rightarrow> Inl OverflowError
      | Some v \<Rightarrow> Inr ((if n < 0 then ''-'' else []) @ format_g_nat v))"

section \<open>What the code calls and does not define\<close>

text \<open>
  The geometry library: \<^verbatim>\<open>Geometry(geometry, 'EPSG:4326').to_crs(crs, resolution=math.inf)\<close>
  either raises or returns a geometry object, of which the code reads \<^verbatim>\<open>is_valid\<close> and
  \<^verbatim>\<open>json\<close>. The latter is the object's GeoJSON mapping, which has a \<^verbatim>\<open>type\<close> and the
  coordinates.
\<close>

record geometry =
  is_valid :: bool
  geo_type :: string
  geo_coordinates :: json

definition geometry_json :: "geometry \<Rightarrow> json" where
  "geometry_json g = JObj [(''type'', JStr (geo_type g)), (''coordinates'', geo_coordinates g)]"

text \<open>
  The parameters of the model:
  \<^item> \<open>odc_uuid\<close> is \<^verbatim>\<open>str(odc_uuid(algorithm, version, sources))\<close>, imported from
    \<^verbatim>\<open>odc.index\<close>: the identifier made of a namespace, a version and a list of sources,
    the same for the same three;
  \<^item> \<open>to_crs\<close> is the call of the geometry library above;
  \<^item> \<open>float_str\<close> and \<open>float_format_g\<close> are \<^verbatim>\<open>str(x)\<close> and \<^verbatim>\<open>format(x, 'g')\<close> of a float \<open>x\<close>;
  \<^item> \<open>container_str\<close> is \<^verbatim>\<open>str(x)\<close> of a list or a dict \<open>x\<close>.
\<close>

record externals =
  odc_uuid :: "string \<Rightarrow> string \<Rightarrow> json list \<Rightarrow> string"
  to_crs :: "json \<Rightarrow> string \<Rightarrow> geometry result"
  float_str :: "pyfloat \<Rightarrow> string"
  float_format_g :: "pyfloat \<Rightarrow> string"
  container_str :: "json \<Rightarrow> string"

text \<open>\<^verbatim>\<open>str(x)\<close>, which is also \<^verbatim>\<open>format(x, '')\<close> and what \<^verbatim>\<open>{}\<close> prints.\<close>

fun py_str :: "externals \<Rightarrow> json \<Rightarrow> string" where
  "py_str E JNull = ''None''"
| "py_str E (JBool b) = (if b then ''True'' else ''False'')"
| "py_str E (JInt n) = str_int n"
| "py_str E (JFloat x) = float_str E x"
| "py_str E (JStr s) = s"
| "py_str E (JArr vs) = container_str E (JArr vs)"
| "py_str E (JObj kvs) = container_str E (JObj kvs)"

text \<open>
  \<^verbatim>\<open>format(x, 'g')\<close>: a number is printed (a bool is an int), a str has no such
  format code and the other values take no format at all.
\<close>

fun format_g :: "externals \<Rightarrow> json \<Rightarrow> string result" where
  "format_g E (JInt n) = format_g_int n"
| "format_g E (JBool b) = format_g_int (if b then 1 else 0)"
| "format_g E (JFloat x) = Inr (float_format_g E x)"
| "format_g E (JStr s) = Inl ValueError"
| "format_g E _ = Inl TypeError"

section \<open>The product of an item\<close>

definition KNOWN_CONSTELLATIONS :: "json list" where
  "KNOWN_CONSTELLATIONS = [JStr ''sentinel-2'']"

text \<open>
  \<^verbatim>\<open>_stac_product_lookup(item)\<close> returns the label, the name and the region code of the
  product; the region code is \<^verbatim>\<open>None\<close> or a str.
\<close>

definition stac_product_lookup :: "externals \<Rightarrow> json \<Rightarrow> (json \<times> json \<times> string option) result" where
  "stac_product_lookup E item =
     and_then (getitem item ''properties'') (\<lambda>properties.
     and_then (getitem item ''id'') (\<lambda>product_label.
     and_then (getitem properties ''platform'') (\<lambda>product_name.
     and_then (getitem properties ''constellation'') (\<lambda>constellation.
     if constellation \<in> set KNOWN_CONSTELLATIONS then
       if constellation = JStr ''sentinel-2'' then
         and_then (getitem properties ''sentinel:product_id'') (\<lambda>product_label.
         and_then (getitem properties ''proj:epsg'') (\<lambda>epsg.
         and_then (getitem properties ''sentinel:latitude_band'') (\<lambda>latitude_band.
         and_then (getitem properties ''sentinel:grid_square'') (\<lambda>grid_square.
         Inr (product_label, JStr ''s2_l2a'',
              Some (last_two (py_str E epsg) @ py_str E latitude_band @ py_str E grid_square))))))
       else Inr (product_label, product_name, None)
     else Inr (product_label, product_name, None)))))"

section \<open>Bands and grids\<close>

definition COG :: json where
  "COG = JStr ''image/tiff; application=geotiff; profile=cloud-optimized''"

text \<open>
  The grid of an asset (lines 48 and 49): \<^verbatim>\<open>f'g{transform[0]:g}m'\<close> of its
  \<^verbatim>\<open>proj:transform\<close>.
\<close>

definition grid_key :: "externals \<Rightarrow> json \<Rightarrow> string result" where
  "grid_key E asset =
     and_then (getitem asset ''proj:transform'') (\<lambda>transform.
     and_then (getitem0 transform) (\<lambda>t0.
     and_then (format_g E t0) (\<lambda>s.
     Inr (''g'' @ s @ ''m''))))"

text \<open>
  Lines 51 to 55: a grid that is not there yet is entered with the shape and the
  transform of the asset at hand.
\<close>

definition add_grid :: "string \<Rightarrow> json \<Rightarrow> (string \<times> json) list \<Rightarrow> (string \<times> json) list result" where
  "add_grid grid asset grids =
     (if grid \<notin> fst ` set grids then
        and_then (getitem asset ''proj:shape'') (\<lambda>shape.
        and_then (getitem asset ''proj:transform'') (\<lambda>transform.
        Inr (AList.update grid (JObj [(''shape'', shape), (''transform'', transform)]) grids)))
      else Inr grids)"

text \<open>
  Lines 57 to 66: the entry of a band, with its path and, unless its grid is the
  default one, its grid.
\<close>

definition band_info :: "string \<Rightarrow> bool \<Rightarrow> string \<Rightarrow> json \<Rightarrow> json result" where
  "band_info default_grid relative grid asset =
     and_then (getitem asset ''href'') (\<lambda>href.
     and_then (if relative then path_name href else Inr href) (\<lambda>path.
     Inr (JObj ((''path'', path) # (if grid \<noteq> default_grid then [(''grid'', JStr grid)] else [])))))"

text \<open>
  The loop body of \<^verbatim>\<open>_get_stac_bands\<close> (lines 44 to 68) on one asset, from the bands
  and the grids so far to those after it. An asset that is no cloud-optimized GeoTIFF
  changes nothing.
\<close>

definition asset_step ::
  "externals \<Rightarrow> string \<Rightarrow> bool \<Rightarrow> string \<times> json \<Rightarrow>
   (string \<times> json) list \<times> (string \<times> json) list \<Rightarrow>
   ((string \<times> json) list \<times> (string \<times> json) list) result" where
  "asset_step E default_grid relative entry acc =
     (case (entry, acc) of ((asset_name, asset), (bands, grids)) \<Rightarrow>
     and_then (getitem asset ''type'') (\<lambda>ty.
     if ty \<notin> set [COG] then Inr (bands, grids)
     else
       and_then (grid_key E asset) (\<lambda>grid.
       and_then (add_grid grid asset grids) (\<lambda>grids'.
       and_then (band_info default_grid relative grid asset) (\<lambda>info.
       Inr (AList.update asset_name info bands, grids'))))))"

text \<open>The loop over the assets: it stops at the first exception.\<close>

fun assets_loop ::
  "('a \<Rightarrow> 's \<Rightarrow> 's result) \<Rightarrow> 'a list \<Rightarrow> 's \<Rightarrow> 's result" where
  "assets_loop body [] acc = Inr acc"
| "assets_loop body (x # xs) acc =
     (case body x acc of Inl e \<Rightarrow> Inl e | Inr acc' \<Rightarrow> assets_loop body xs acc')"

text \<open>
  \<^verbatim>\<open>_get_stac_bands(item, default_grid, relative)\<close>: the bands and the grids, where
  the grid of \<open>default_grid\<close> is renamed \<^verbatim>\<open>default\<close>.
\<close>

definition get_stac_bands ::
  "externals \<Rightarrow> json \<Rightarrow> string \<Rightarrow> bool \<Rightarrow>
   ((string \<times> json) list \<times> (string \<times> json) list) result" where
  "get_stac_bands E item default_grid relative =
     and_then (getitem item ''assets'') (\<lambda>assets.
     and_then (items assets) (\<lambda>entries.
     and_then (assets_loop (asset_step E default_grid relative) entries ([], [])) (\<lambda>acc.
     case acc of (bands, grids) \<Rightarrow>
       (case map_of grids default_grid of
          None \<Rightarrow> Inl (KeyError (JStr default_grid))
        | Some grid \<Rightarrow> Inr (bands, AList.delete default_grid (AList.update ''default'' grid grids))))))"

section \<open>The footprint\<close>

text \<open>
  \<^verbatim>\<open>_geographic_to_projected(geometry, crs)\<close>: the footprint in the native projection,
  or \<^verbatim>\<open>None\<close> when the result is not valid.
\<close>

definition geographic_to_projected :: "externals \<Rightarrow> json \<Rightarrow> string \<Rightarrow> json option result" where
  "geographic_to_projected E geometry crs =
     and_then (to_crs E geometry crs) (\<lambda>geom.
     if is_valid geom then Inr (Some (geometry_json geom)) else Inr None)"

section \<open>The dataset document\<close>

text \<open>The truth value of a dict is that it has an entry, of a str that it has a character.\<close>

fun truthy :: "json option \<Rightarrow> bool" where
  "truthy None = False"
| "truthy (Some (JObj kvs)) = (kvs \<noteq> [])"
| "truthy (Some (JStr s)) = (s \<noteq> [])"
| "truthy (Some (JArr vs)) = (vs \<noteq> [])"
| "truthy (Some (JBool b)) = b"
| "truthy (Some (JInt n)) = (n \<noteq> 0)"
| "truthy (Some JNull) = False"
| "truthy (Some (JFloat x)) = (x \<noteq> 0 \<and> x \<noteq> 2 ^ 63)"

text \<open>
  The dictionary that lines 108 to 128 of \<^verbatim>\<open>stac_transform\<close> build, entry by entry
  in the order they are evaluated.
\<close>

definition stac_odc_literal ::
  "string \<Rightarrow> string \<Rightarrow> (string \<times> json) list \<Rightarrow> json \<Rightarrow> json \<Rightarrow> json \<Rightarrow>
   (string \<times> json) list \<Rightarrow> (string \<times> json) list result" where
  "stac_odc_literal deterministic_uuid native_crs grids product_name product_label properties bands =
     and_then (lower product_name) (\<lambda>name.
     and_then (getitem properties ''datetime'') (\<lambda>datetime.
     and_then (replace datetime ''000+00:00'' ''Z'') (\<lambda>datetime.
     and_then (getitem properties ''datetime'') (\<lambda>processing_datetime.
     and_then (replace processing_datetime ''000+00:00'' ''Z'') (\<lambda>processing_datetime.
     and_then (getitem properties ''eo:cloud_cover'') (\<lambda>cloud_cover.
     and_then (getitem properties ''gsd'') (\<lambda>gsd.
     and_then (getitem properties ''instruments'') (\<lambda>instruments.
     and_then (getitem0 instruments) (\<lambda>instrument.
     and_then (getitem properties ''platform'') (\<lambda>platform.
     Inr [(''$schema'', JStr ''https://schemas.opendatacube.org/dataset''),
          (''id'', JStr deterministic_uuid),
          (''crs'', JStr native_crs),
          (''grids'', JObj grids),
          (''product'', JObj [(''name'', name)]),
          (''label'', product_label),
          (''properties'', JObj
             [(''datetime'', datetime),
              (''odc:processing_datetime'', processing_datetime),
              (''eo:cloud_cover'', cloud_cover),
              (''eo:gsd'', gsd),
              (''eo:instrument'', instrument),
              (''eo:platform'', platform),
              (''odc:file_format'', JStr ''GeoTIFF'')]),
          (''measurements'', JObj bands),
          (''lineage'', JObj [])]))))))))))"

text \<open>\<^verbatim>\<open>d[k1][k2] = v\<close> on a dictionary \<open>d\<close> whose entry \<open>k1\<close> is a dictionary.\<close>

definition set_nested :: "string \<Rightarrow> string \<Rightarrow> json \<Rightarrow> (string \<times> json) list \<Rightarrow> (string \<times> json) list" where
  "set_nested k1 k2 v d =
     (case map_of d k1 of
        Some (JObj inner) \<Rightarrow> AList.update k1 (JObj (AList.update k2 v inner)) d
      | _ \<Rightarrow> d)"

text \<open>
  Lines 130 to 134: the region code and the geometry are entered when they are true
  values.
\<close>

definition add_optional ::
  "string option \<Rightarrow> json option \<Rightarrow> (string \<times> json) list \<Rightarrow> (string \<times> json) list" where
  "add_optional region_code geometry stac_odc =
     (let stac_odc1 =
            (case region_code of
               None \<Rightarrow> stac_odc
             | Some code \<Rightarrow>
                 if truthy (Some (JStr code))
                 then set_nested ''properties'' ''odc:region_code'' (JStr code) stac_odc
                 else stac_odc)
      in case geometry of
           None \<Rightarrow> stac_odc1
         | Some geom \<Rightarrow>
             if truthy (Some geom) then AList.update ''geometry'' geom stac_odc1
             else stac_odc1)"

text \<open>\<^verbatim>\<open>stac_transform(input_stac, relative)\<close>.\<close>

definition stac_transform :: "externals \<Rightarrow> json \<Rightarrow> bool \<Rightarrow> json result" where
  "stac_transform E input_stac relative =
     and_then (stac_product_lookup E input_stac) (\<lambda>product.
     case product of (product_label, product_name, region_code) \<Rightarrow>
     let deterministic_uuid = odc_uuid E ''sentinel-2_stac_process'' ''1.0.0'' [product_label] in
     and_then (get_stac_bands E input_stac ''g10m'' relative) (\<lambda>bg.
     case bg of (bands, grids) \<Rightarrow>
     and_then (getitem input_stac ''properties'') (\<lambda>properties.
     and_then (getitem properties ''proj:epsg'') (\<lambda>epsg.
     let native_crs = ''epsg:'' @ py_str E epsg in
     and_then (getitem input_stac ''geometry'') (\<lambda>footprint.
     and_then (geographic_to_projected E footprint native_crs) (\<lambda>geometry.
     and_then (stac_odc_literal deterministic_uuid native_crs grids product_name product_label
                 properties bands) (\<lambda>stac_odc.
     Inr (JObj (add_optional region_code geometry stac_odc)))))))))"

definition stac_transform_absolute :: "externals \<Rightarrow> json \<Rightarrow> json result" where
  "stac_transform_absolute E input_stac = stac_transform E input_stac False"

section \<open>A worked example\<close>

text \<open>
  Stand-ins for the collaborators, to run the transformation on an item: an identifier
  that spells out its sources, and a projection that keeps the coordinates and calls a
  footprint without any coordinates invalid. No item of the example holds a float or
  prints a container.
\<close>

definition example_uuid :: "string \<Rightarrow> string \<Rightarrow> json list \<Rightarrow> string" where
  "example_uuid algorithm version sources =
     (case sources of [JStr label] \<Rightarrow> ''uuid:'' @ label | _ \<Rightarrow> ''uuid'')"

definition example_to_crs :: "json \<Rightarrow> string \<Rightarrow> geometry result" where
  "example_to_crs footprint crs =
     (case getitem footprint ''coordinates'' of
        Inl e \<Rightarrow> Inl (LibraryError ''no coordinates'')
      | Inr c \<Rightarrow> Inr \<lparr>is_valid = (c \<noteq> JArr []), geo_type = ''Polygon'', geo_coordinates = c\<rparr>)"

definition example_externals :: externals where
  "example_externals =
     \<lparr>odc_uuid = example_uuid, to_crs = example_to_crs, float_str = (\<lambda>x. []),
      float_format_g = (\<lambda>x. []), container_str = (\<lambda>x. [])\<rparr>"

text \<open>
  The item of the specification's example scenario, with the fields the scenario leaves
  open filled in: two assets of pixel spacing 10.
\<close>

definition cog_asset :: "int \<Rightarrow> int \<Rightarrow> string \<Rightarrow> json" where
  "cog_asset spacing easting href =
     JObj [(''type'', COG), (''href'', JStr href),
           (''proj:transform'',
            JArr [JInt spacing, JInt 0, JInt easting, JInt 0, JInt (- spacing), JInt 5900040]),
           (''proj:shape'', JArr [JInt 10980, JInt 10980])]"

definition example_asset :: "string \<Rightarrow> json" where
  "example_asset href = cog_asset 10 600000 href"

definition example_properties :: "(string \<times> json) list" where
  "example_properties =
     [(''platform'', JStr ''Sentinel-2A''),
      (''constellation'', JStr ''sentinel-2''),
      (''sentinel:product_id'', JStr ''S2A_L2A_1''),
      (''proj:epsg'', JInt 32633),
      (''sentinel:latitude_band'', JStr ''U''),
      (''sentinel:grid_square'', JStr ''XV''),
      (''datetime'', JStr ''2020-01-01T10:00:00.000+00:00''),
      (''eo:cloud_cover'', JInt 12),
      (''gsd'', JInt 10),
      (''instruments'', JArr [JStr ''msi''])]"

definition example_footprint :: json where
  "example_footprint =
     JObj [(''type'', JStr ''Polygon''),
           (''coordinates'', JArr [JArr [JArr [JInt 15, JInt 53], JArr [JInt 16, JInt 53],
                                         JArr [JInt 16, JInt 54], JArr [JInt 15, JInt 53]]])]"

definition example_assets :: "(string \<times> json) list" where
  "example_assets =
     [(''B02'', example_asset ''s3://s2/B02.tif''), (''B03'', example_asset ''s3://s2/B03.tif'')]"

definition item_of :: "(string \<times> json) list \<Rightarrow> (string \<times> json) list \<Rightarrow> json \<Rightarrow> json" where
  "item_of properties assets footprint =
     JObj [(''id'', JStr ''S2A_item_1''), (''properties'', JObj properties),
           (''assets'', JObj assets), (''geometry'', footprint)]"

definition example_item :: json where
  "example_item = item_of example_properties example_assets example_footprint"

text \<open>
  Three more items: one with a band of 10 and a band of 20 metres, one whose two bands of
  10 metres lie 100 kilometres apart, and one with a band of 20 metres only.
\<close>

definition two_grid_item :: json where
  "two_grid_item =
     item_of example_properties
       [(''B02'', cog_asset 10 600000 ''s3://s2/B02.tif''),
        (''B05'', cog_asset 20 600000 ''s3://s2/B05.tif'')]
       example_footprint"

definition shifted_item :: json where
  "shifted_item =
     item_of example_properties
       [(''B02'', cog_asset 10 600000 ''s3://s2/B02.tif''),
        (''B03'', cog_asset 10 700000 ''s3://s2/B03.tif'')]
       example_footprint"

definition coarse_item :: json where
  "coarse_item =
     item_of example_properties [(''B05'', cog_asset 20 600000 ''s3://s2/B05.tif'')]
       example_footprint"

text \<open>A footprint without coordinates, which the stand-in projection calls invalid.\<close>

definition degenerate_footprint :: json where
  "degenerate_footprint = JObj [(''type'', JStr ''Polygon''), (''coordinates'', JArr [])]"

text \<open>An item whose only asset, of 20 metres, has no \<^verbatim>\<open>href\<close>.\<close>

definition no_href_asset :: json where
  "no_href_asset =
     JObj [(''type'', COG),
           (''proj:transform'',
            JArr [JInt 20, JInt 0, JInt 600000, JInt 0, JInt (- 20), JInt 5900040]),
           (''proj:shape'', JArr [JInt 5490, JInt 5490])]"

definition no_href_item :: json where
  "no_href_item = item_of example_properties [(''B05'', no_href_asset)] example_footprint"

definition degenerate_item :: json where
  "degenerate_item = item_of example_properties example_assets degenerate_footprint"

definition degenerate_coarse_item :: json where
  "degenerate_coarse_item =
     item_of example_properties [(''B05'', cog_asset 20 600000 ''s3://s2/B05.tif'')]
       degenerate_footprint"

text \<open>Reading the result: \<^verbatim>\<open>d[k]\<close> and \<^verbatim>\<open>d[k1][k2]\<close> of the document returned.\<close>

definition output_field :: "json result \<Rightarrow> string \<Rightarrow> json result" where
  "output_field r k = and_then r (\<lambda>d. getitem d k)"

definition output_field2 :: "json result \<Rightarrow> string \<Rightarrow> string \<Rightarrow> json result" where
  "output_field2 r k1 k2 = and_then (output_field r k1) (\<lambda>d. getitem d k2)"

section \<open>Reading items and results\<close>

definition succeeds :: "'a result \<Rightarrow> bool" where
  "succeeds r = (case r of Inl e \<Rightarrow> False | Inr x \<Rightarrow> True)"

text \<open>
  The same collaborators, except that the geometry library calls every footprint it
  projects valid (or every one invalid).
\<close>

definition with_validity :: "bool \<Rightarrow> externals \<Rightarrow> externals" where
  "with_validity v E =
     E\<lparr>to_crs := (\<lambda>footprint crs.
          case to_crs E footprint crs of Inl e \<Rightarrow> Inl e | Inr g \<Rightarrow> Inr (g\<lparr>is_valid := v\<rparr>))\<rparr>"

text \<open>The properties that \<^verbatim>\<open>stac_transform\<close> reads of every item.\<close>

definition always_required :: "string list" where
  "always_required =
     [''datetime'', ''eo:cloud_cover'', ''gsd'', ''instruments'', ''platform'', ''proj:epsg'']"

text \<open>
  An asset as the data model has it: it has a \<^verbatim>\<open>type\<close>, and a cloud-optimized GeoTIFF
  has a \<^verbatim>\<open>proj:transform\<close> whose first element is a number that has a grid key, a
  \<^verbatim>\<open>proj:shape\<close> and an \<^verbatim>\<open>href\<close>, which is a str where its file name is asked for.
\<close>

definition well_formed_asset :: "externals \<Rightarrow> bool \<Rightarrow> json \<Rightarrow> bool" where
  "well_formed_asset E relative asset \<longleftrightarrow>
     succeeds (getitem asset ''type'') \<and>
     (getitem asset ''type'' = Inr COG \<longrightarrow>
        succeeds (grid_key E asset) \<and> succeeds (getitem asset ''proj:shape'') \<and>
        succeeds (and_then (getitem asset ''href'')
                    (\<lambda>href. if relative then path_name href else Inr href)))"

text \<open>
  What an entry of \<^verbatim>\<open>grids\<close> holds when it is made of an asset (lines 52 to 55), and the
  first asset, in the order of the item, that is a cloud-optimized GeoTIFF of a given
  grid key.
\<close>

definition descriptor :: "json \<Rightarrow> json result" where
  "descriptor asset =
     and_then (getitem asset ''proj:shape'') (\<lambda>shape.
     and_then (getitem asset ''proj:transform'') (\<lambda>transform.
     Inr (JObj [(''shape'', shape), (''transform'', transform)])))"

definition first_of_grid :: "externals \<Rightarrow> string \<Rightarrow> (string \<times> json) list \<Rightarrow> (string \<times> json) option" where
  "first_of_grid E k assets =
     find (\<lambda>entry. getitem (snd entry) ''type'' = Inr COG \<and> grid_key E (snd entry) = Inr k) assets"

text \<open>
  The grid a band of the result refers to: the one its \<^verbatim>\<open>grid\<close> names, and \<^verbatim>\<open>default\<close>
  when the band has no \<^verbatim>\<open>grid\<close>.
\<close>

definition band_grid :: "(string \<times> json) list \<Rightarrow> string \<Rightarrow> string option" where
  "band_grid bands name =
     (case map_of bands name of
        Some (JObj info) \<Rightarrow>
          (case map_of info ''grid'' of
             None \<Rightarrow> Some ''default''
           | Some (JStr k) \<Rightarrow> Some k
           | Some _ \<Rightarrow> None)
      | _ \<Rightarrow> None)"

text \<open>
  The invariant of the loop: no grid is there twice, and a band that names a grid names
  one that is there and is not the default one.
\<close>

definition bands_refer :: "string \<Rightarrow> (string \<times> json) list \<times> (string \<times> json) list \<Rightarrow> bool" where
  "bands_refer dg acc \<longleftrightarrow>
     (case acc of (bands, grids) \<Rightarrow>
        distinct (map fst grids) \<and>
        (\<forall>(n, b) \<in> set bands. \<exists>info. b = JObj info \<and>
           (map_of info ''grid'' = None
            \<or> (\<exists>k. map_of info ''grid'' = Some (JStr k) \<and> k \<in> fst ` set grids \<and> k \<noteq> dg))))"

section \<open>Reasoning about results\<close>

lemma and_then_Inl [simp]: "and_then (Inl e) f = Inl e"
  by (simp add: and_then_def)

lemma and_then_Inr [simp]: "and_then (Inr x) f = f x"
  by (simp add: and_then_def)

text \<open>To run the model on an item: a step is evaluated before what follows it.\<close>

lemma and_then_weak_cong: "m = m' \<Longrightarrow> and_then m f = and_then m' f"
  by simp

lemma and_then_eq_Inr: "and_then m f = Inr y \<longleftrightarrow> (\<exists>x. m = Inr x \<and> f x = Inr y)"
  by (cases m) simp_all

lemma and_then_eq_Inl: "and_then m f = Inl e \<longleftrightarrow> m = Inl e \<or> (\<exists>x. m = Inr x \<and> f x = Inl e)"
  by (cases m) simp_all

lemma replace_eq_Inr:
  "replace v old new = Inr y \<longleftrightarrow> (\<exists>s. v = JStr s \<and> y = JStr (str_replace s old new))"
  by (cases v) auto

lemma lower_eq_Inr: "lower v = Inr y \<longleftrightarrow> (\<exists>s. v = JStr s \<and> y = JStr (map lower_char s))"
  by (cases v) auto

lemma stac_transform_InrE:
  assumes "stac_transform E item rel = Inr doc"
  obtains label name region bands grids props epsg fp geom lit where
    "stac_product_lookup E item = Inr (label, name, region)"
    "get_stac_bands E item ''g10m'' rel = Inr (bands, grids)"
    "getitem item ''properties'' = Inr props"
    "getitem props ''proj:epsg'' = Inr epsg"
    "getitem item ''geometry'' = Inr fp"
    "geographic_to_projected E fp (''epsg:'' @ py_str E epsg) = Inr geom"
    "stac_odc_literal (odc_uuid E ''sentinel-2_stac_process'' ''1.0.0'' [label])
       (''epsg:'' @ py_str E epsg) grids name label props bands = Inr lit"
    "doc = JObj (add_optional region geom lit)"
  using assms unfolding stac_transform_def
  by (auto simp: and_then_eq_Inr Let_def split: prod.splits)

lemma stac_odc_literal_InrE:
  assumes "stac_odc_literal u crs grids name label props bands = Inr lit"
  obtains nm s cloud gsd ins instrument platform where
    "name = JStr nm"
    "getitem props ''datetime'' = Inr (JStr s)"
    "getitem props ''eo:cloud_cover'' = Inr cloud"
    "getitem props ''gsd'' = Inr gsd"
    "getitem props ''instruments'' = Inr ins"
    "getitem0 ins = Inr instrument"
    "getitem props ''platform'' = Inr platform"
    "lit = [(''$schema'', JStr ''https://schemas.opendatacube.org/dataset''),
          (''id'', JStr u),
          (''crs'', JStr crs),
          (''grids'', JObj grids),
          (''product'', JObj [(''name'', JStr (map lower_char nm))]),
          (''label'', label),
          (''properties'', JObj
             [(''datetime'', JStr (str_replace s ''000+00:00'' ''Z'')),
              (''odc:processing_datetime'', JStr (str_replace s ''000+00:00'' ''Z'')),
              (''eo:cloud_cover'', cloud),
              (''eo:gsd'', gsd),
              (''eo:instrument'', instrument),
              (''eo:platform'', platform),
              (''odc:file_format'', JStr ''GeoTIFF'')]),
          (''measurements'', JObj bands),
          (''lineage'', JObj [])]"
  using assms unfolding stac_odc_literal_def
  by (auto simp: and_then_eq_Inr replace_eq_Inr lower_eq_Inr)

lemma map_of_set_nested_other:
  "k \<noteq> k1 \<Longrightarrow> map_of (set_nested k1 k2 v d) k = map_of d k"
  by (auto simp: set_nested_def update_conv' split: option.splits json.splits)

lemma map_of_add_optional_other:
  "k \<noteq> ''properties'' \<Longrightarrow> k \<noteq> ''geometry'' \<Longrightarrow> map_of (add_optional r g d) k = map_of d k"
  by (auto simp: add_optional_def Let_def update_conv' map_of_set_nested_other split: option.splits)

lemma stac_transform_id:
  assumes "stac_transform E item rel = Inr doc"
    and "stac_product_lookup E item = Inr (label, name, region)"
  shows "getitem doc ''id'' = Inr (JStr (odc_uuid E ''sentinel-2_stac_process'' ''1.0.0'' [label]))"
proof -
  from assms(1) obtain label' name' region' bands grids props epsg geom lit where
    l: "stac_product_lookup E item = Inr (label', name', region')"
    and lit: "stac_odc_literal (odc_uuid E ''sentinel-2_stac_process'' ''1.0.0'' [label'])
       (''epsg:'' @ py_str E epsg) grids name' label' props bands = Inr lit"
    and doc: "doc = JObj (add_optional region' geom lit)"
    by (rule stac_transform_InrE)
  from l assms(2) have eq: "label' = label" by simp
  from lit have "map_of lit ''id'' = Some (JStr (odc_uuid E ''sentinel-2_stac_process'' ''1.0.0'' [label']))"
    by (rule stac_odc_literal_InrE) simp
  with doc eq show ?thesis by (simp add: map_of_add_optional_other)
qed


lemmas model_defs =
  stac_transform_def stac_product_lookup_def get_stac_bands_def asset_step_def grid_key_def
  add_grid_def band_info_def
  geographic_to_projected_def stac_odc_literal_def add_optional_def set_nested_def
  geometry_json_def KNOWN_CONSTELLATIONS_def COG_def

lemmas builtin_defs =
  format_g_int_def float_of_nat_def bit_length.simps format_g_nat_def digits.simps
  digit_char_def path_parts_def last_two_def str_int_def lower_char_def upper_case_def
  lower_case_def str_replace.simps

lemmas example_defs =
  example_externals_def example_uuid_def example_to_crs_def example_item_def item_of_def
  example_properties_def example_assets_def example_asset_def cog_asset_def
  example_footprint_def two_grid_item_def shifted_item_def coarse_item_def
  degenerate_footprint_def degenerate_item_def degenerate_coarse_item_def no_href_item_def
  no_href_asset_def

lemma example_lookup:
  "stac_product_lookup E (item_of example_properties assets footprint)
     = Inr (JStr ''S2A_L2A_1'', JStr ''s2_l2a'', Some ''33UXV'')"
  by (simp add: stac_product_lookup_def item_of_def example_properties_def
      KNOWN_CONSTELLATIONS_def last_two_def str_int_def digits.simps digit_char_def)

lemma example_transform:
  "\<exists>doc. stac_transform example_externals example_item True = Inr doc"
  by (simp add: model_defs builtin_defs example_defs cong: and_then_weak_cong)

lemma map_of_add_optional_properties:
  assumes "map_of d ''properties'' = Some (JObj ps)"
  shows "map_of (add_optional r g d) ''properties''
         = Some (JObj (case r of None \<Rightarrow> ps
                       | Some code \<Rightarrow> if code = [] then ps
                                      else AList.update ''odc:region_code'' (JStr code) ps))"
  using assms
  by (auto simp: add_optional_def Let_def set_nested_def update_conv' split: option.splits)

lemma getitem_JObj: "getitem (JObj kvs) k = Inr v \<longleftrightarrow> map_of kvs k = Some v"
  by (auto split: option.splits)

lemma getitem_InrE:
  assumes "getitem d k = Inr v"
  obtains kvs where "d = JObj kvs" "map_of kvs k = Some v"
  using assms by (cases d) (auto split: option.splits)

lemma str_replace_Nil [simp]: "old \<noteq> [] \<Longrightarrow> str_replace [] old new = []"
  by (simp add: str_replace.simps)

lemma str_replace_no_occurrence:
  "old \<noteq> [] \<Longrightarrow> \<not> sublist old s \<Longrightarrow> str_replace s old new = s"
proof (induction s)
  case Nil
  then show ?case by simp
next
  case (Cons c s)
  from Cons.prems(2) have np: "\<not> prefix old (c # s)" and "\<not> sublist old s"
    by (simp_all add: sublist_Cons_right)
  with Cons.IH Cons.prems(1) have "str_replace s old new = s" by simp
  with np Cons.prems(1) show ?case
    by (subst str_replace.simps) simp
qed

lemma str_replace_only_suffix:
  "old \<noteq> [] \<Longrightarrow> \<not> sublist old (p @ butlast old) \<Longrightarrow> str_replace (p @ old) old new = p @ new"
proof (induction p)
  case Nil
  then show ?case by (subst str_replace.simps) simp
next
  case (Cons c p)
  have np: "\<not> prefix old (c # p @ old)"
  proof
    assume "prefix old (c # p @ old)"
    then have "prefix old ((c # p @ butlast old) @ [last old])"
      using Cons.prems(1) by simp
    moreover have "length old \<le> length (c # p @ butlast old)" by simp
    ultimately have "prefix old (c # p @ butlast old)"
      by (metis prefix_length_prefix prefix_order.order_refl prefixI)
    then show False using Cons.prems(2) by (simp add: sublist_Cons_right)
  qed
  from Cons.prems(2) have "\<not> sublist old (p @ butlast old)"
    by (simp add: sublist_Cons_right)
  with Cons.IH Cons.prems(1) have "str_replace (p @ old) old new = p @ new" by simp
  with np Cons.prems(1) show ?case
    by (subst str_replace.simps) simp
qed

section \<open>The identifier\<close>

text \<open>
  Claim C1. Two items on which \<^verbatim>\<open>stac_transform\<close> succeeds and whose product labels
  are the same get the same \<^verbatim>\<open>id\<close>, whatever else differs between them (the flag
  \<^verbatim>\<open>relative\<close> included): the \<^verbatim>\<open>id\<close> is the identifier made of the label alone.
\<close>

theorem label_determines_id:
  assumes "stac_transform E item1 rel1 = Inr doc1"
    and "stac_transform E item2 rel2 = Inr doc2"
    and "stac_product_lookup E item1 = Inr (label, name1, region1)"
    and "stac_product_lookup E item2 = Inr (label, name2, region2)"
  shows "getitem doc1 ''id'' = Inr (JStr (odc_uuid E ''sentinel-2_stac_process'' ''1.0.0'' [label]))
       \<and> getitem doc2 ''id'' = getitem doc1 ''id''"
  using assms by (simp add: stac_transform_id)

text \<open>
  The example item and an item with another cloud cover, another time, one asset only
  and absolute paths: the label is the same, and so is the \<^verbatim>\<open>id\<close>.
\<close>

theorem label_determines_id_witness:
  "output_field (stac_transform example_externals example_item True) ''id''
     = Inr (JStr ''uuid:S2A_L2A_1'')
   \<and> output_field
        (stac_transform example_externals
           (item_of (AList.update ''eo:cloud_cover'' (JInt 80)
                      (AList.update ''datetime'' (JStr ''2021-06-01T09:30:00Z'') example_properties))
              [(''B02'', example_asset ''s3://other/B02.tif'')] example_footprint)
           False) ''id''
     = Inr (JStr ''uuid:S2A_L2A_1'')"
proof -
  let ?item2 = "item_of (AList.update ''eo:cloud_cover'' (JInt 80)
                      (AList.update ''datetime'' (JStr ''2021-06-01T09:30:00Z'') example_properties))
              [(''B02'', example_asset ''s3://other/B02.tif'')] example_footprint"
  obtain doc1 where d1: "stac_transform example_externals example_item True = Inr doc1"
    using example_transform by blast
  obtain doc2 where d2: "stac_transform example_externals ?item2 False = Inr doc2"
    by (simp add: model_defs builtin_defs example_defs cong: and_then_weak_cong)
  have l1: "stac_product_lookup example_externals example_item
              = Inr (JStr ''S2A_L2A_1'', JStr ''s2_l2a'', Some ''33UXV'')"
    by (simp add: example_item_def example_lookup)
  have l2: "stac_product_lookup example_externals ?item2
              = Inr (JStr ''S2A_L2A_1'', JStr ''s2_l2a'', Some ''33UXV'')"
    by (simp add: stac_product_lookup_def item_of_def example_properties_def
        KNOWN_CONSTELLATIONS_def last_two_def str_int_def digits.simps digit_char_def)
  from label_determines_id [OF d1 d2 l1 l2] d1 d2 show ?thesis
    by (simp add: output_field_def example_externals_def example_uuid_def)
qed

section \<open>The timestamps\<close>

text \<open>
  Claim C6 as it is written says that a trailing \<^verbatim>\<open>000+00:00\<close> becomes \<^verbatim>\<open>Z\<close> and that a
  string without that suffix is left as it is. \<^verbatim>\<open>str.replace\<close> rewrites every
  occurrence, wherever it stands: here the source string does not end in \<^verbatim>\<open>000+00:00\<close>
  and is changed all the same.
\<close>

theorem datetime_suffix_counterexample:
  "\<not> suffix ''000+00:00'' ''10:00:00.000+00:00/11:00:00Z''
   \<and> output_field2
        (stac_transform example_externals
           (item_of (AList.update ''datetime'' (JStr ''10:00:00.000+00:00/11:00:00Z'') example_properties)
              example_assets example_footprint) True)
        ''properties'' ''datetime''
     = Inr (JStr ''10:00:00.Z/11:00:00Z'')"
  by (simp add: output_field2_def output_field_def suffix_def model_defs builtin_defs example_defs
      cong: and_then_weak_cong)

text \<open>
  Claim C6, amended. On success both \<^verbatim>\<open>datetime\<close> and \<^verbatim>\<open>odc:processing_datetime\<close> are
  the source \<^verbatim>\<open>datetime\<close> string with every occurrence of \<^verbatim>\<open>000+00:00\<close> replaced by
  \<^verbatim>\<open>Z\<close>, from the left. A string in which \<^verbatim>\<open>000+00:00\<close> does not occur is unchanged, and
  a string that ends in \<^verbatim>\<open>000+00:00\<close> and has no other occurrence has that suffix
  rewritten to \<^verbatim>\<open>Z\<close>.
\<close>

theorem datetime_replaced:
  assumes "stac_transform E item rel = Inr doc"
  shows "\<exists>props s.
           getitem item ''properties'' = Inr props
         \<and> getitem props ''datetime'' = Inr (JStr s)
         \<and> output_field2 (Inr doc) ''properties'' ''datetime''
             = Inr (JStr (str_replace s ''000+00:00'' ''Z''))
         \<and> output_field2 (Inr doc) ''properties'' ''odc:processing_datetime''
             = Inr (JStr (str_replace s ''000+00:00'' ''Z''))
         \<and> (\<not> sublist ''000+00:00'' s \<longrightarrow> str_replace s ''000+00:00'' ''Z'' = s)
         \<and> (\<forall>p. s = p @ ''000+00:00'' \<and> \<not> sublist ''000+00:00'' (p @ ''000+00:0'')
                \<longrightarrow> str_replace s ''000+00:00'' ''Z'' = p @ ''Z'')"
proof -
  from assms obtain label name region bands grids props epsg geom lit where
    p: "getitem item ''properties'' = Inr props"
    and lit: "stac_odc_literal (odc_uuid E ''sentinel-2_stac_process'' ''1.0.0'' [label])
       (''epsg:'' @ py_str E epsg) grids name label props bands = Inr lit"
    and doc: "doc = JObj (add_optional region geom lit)"
    by (rule stac_transform_InrE)
  from lit obtain s ps where
    s: "getitem props ''datetime'' = Inr (JStr s)"
    and ps: "map_of lit ''properties'' = Some (JObj ps)"
    and dt: "map_of ps ''datetime'' = Some (JStr (str_replace s ''000+00:00'' ''Z''))"
    and pdt: "map_of ps ''odc:processing_datetime'' = Some (JStr (str_replace s ''000+00:00'' ''Z''))"
    by (rule stac_odc_literal_InrE) simp
  have dts: "map_of ps ''datetime'' = Some (JStr (str_replace s ''000+00:00'' ''Z''))
        \<and> map_of ps ''odc:processing_datetime'' = Some (JStr (str_replace s ''000+00:00'' ''Z''))"
    using dt pdt by simp
  have out: "output_field2 (Inr doc) ''properties'' k = Inr v"
    if "map_of ps k = Some v" "k \<noteq> ''odc:region_code''" for k v
  proof -
    from map_of_add_optional_properties [OF ps, of region geom] obtain ps' where
      a: "map_of (add_optional region geom lit) ''properties'' = Some (JObj ps')"
      and b: "ps' = ps \<or> (\<exists>code. ps' = AList.update ''odc:region_code'' (JStr code) ps)"
      by (cases region) (auto split: if_splits)
    from b that have "map_of ps' k = Some v"
      by (auto simp: update_conv')
    with a doc show ?thesis
      by (simp add: output_field2_def output_field_def)
  qed
  have o1: "output_field2 (Inr doc) ''properties'' ''datetime''
             = Inr (JStr (str_replace s ''000+00:00'' ''Z''))"
    using dts by (intro out) simp_all
  have o2: "output_field2 (Inr doc) ''properties'' ''odc:processing_datetime''
             = Inr (JStr (str_replace s ''000+00:00'' ''Z''))"
    using dts by (intro out) simp_all
  have none: "\<not> sublist ''000+00:00'' s \<longrightarrow> str_replace s ''000+00:00'' ''Z'' = s"
    by (simp add: str_replace_no_occurrence)
  have only: "\<forall>p. s = p @ ''000+00:00'' \<and> \<not> sublist ''000+00:00'' (p @ ''000+00:0'')
                \<longrightarrow> str_replace s ''000+00:00'' ''Z'' = p @ ''Z''"
  proof (intro allI impI, elim conjE)
    fix p assume "s = p @ ''000+00:00''" "\<not> sublist ''000+00:00'' (p @ ''000+00:0'')"
    then show "str_replace s ''000+00:00'' ''Z'' = p @ ''Z''"
      using str_replace_only_suffix [of "''000+00:00''" p "''Z''"] by simp
  qed
  from p s o1 o2 none only show ?thesis by blast
qed

theorem datetime_replaced_witness:
  "output_field2 (stac_transform example_externals example_item True) ''properties'' ''datetime''
     = Inr (JStr ''2020-01-01T10:00:00.Z'')
   \<and> output_field2 (stac_transform example_externals example_item True)
        ''properties'' ''odc:processing_datetime''
     = Inr (JStr ''2020-01-01T10:00:00.Z'')"
proof -
  obtain doc where d: "stac_transform example_externals example_item True = Inr doc"
    using example_transform by blast
  from datetime_replaced [OF d] obtain props s where
    a: "getitem example_item ''properties'' = Inr props"
    and b: "getitem props ''datetime'' = Inr (JStr s)"
    and c: "output_field2 (Inr doc) ''properties'' ''datetime''
             = Inr (JStr (str_replace s ''000+00:00'' ''Z''))"
           "output_field2 (Inr doc) ''properties'' ''odc:processing_datetime''
             = Inr (JStr (str_replace s ''000+00:00'' ''Z''))"
    by blast
  from a b have "s = ''2020-01-01T10:00:00.000+00:00''"
    by (auto simp: example_item_def item_of_def example_properties_def)
  then have "str_replace s ''000+00:00'' ''Z'' = ''2020-01-01T10:00:00.Z''"
    by (simp add: str_replace.simps)
  with c d show ?thesis by simp
qed

section \<open>Items of an unknown constellation\<close>

lemma lookup_unknown_constellation:
  assumes "stac_product_lookup E item = Inr (label, name, region)"
    and "getitem item ''properties'' = Inr props"
    and "getitem props ''constellation'' = Inr c"
    and "c \<notin> set KNOWN_CONSTELLATIONS"
  shows "getitem item ''id'' = Inr label \<and> getitem props ''platform'' = Inr name \<and> region = None"
  using assms unfolding stac_product_lookup_def
  by (auto simp: and_then_eq_Inr)

text \<open>
  Claim C7. When the \<^verbatim>\<open>constellation\<close> of an item is not in \<^verbatim>\<open>KNOWN_CONSTELLATIONS\<close>
  and \<^verbatim>\<open>stac_transform\<close> succeeds, the \<^verbatim>\<open>label\<close> is the \<^verbatim>\<open>id\<close> of the item, the name
  of the product is the \<^verbatim>\<open>platform\<close> in lower case, and the properties of the result
  have no \<^verbatim>\<open>odc:region_code\<close>.
\<close>

theorem unknown_constellation_fallback:
  assumes "stac_transform E item rel = Inr doc"
    and "getitem item ''properties'' = Inr props"
    and "getitem props ''constellation'' = Inr c"
    and "c \<notin> set KNOWN_CONSTELLATIONS"
  shows "\<exists>ident platform.
           getitem item ''id'' = Inr ident
         \<and> getitem props ''platform'' = Inr (JStr platform)
         \<and> output_field (Inr doc) ''label'' = Inr ident
         \<and> output_field2 (Inr doc) ''product'' ''name'' = Inr (JStr (map lower_char platform))
         \<and> output_field2 (Inr doc) ''properties'' ''odc:region_code''
             = Inl (KeyError (JStr ''odc:region_code''))"
proof -
  from assms(1) obtain label name region bands grids props' epsg geom lit where
    l: "stac_product_lookup E item = Inr (label, name, region)"
    and p: "getitem item ''properties'' = Inr props'"
    and lit: "stac_odc_literal (odc_uuid E ''sentinel-2_stac_process'' ''1.0.0'' [label])
       (''epsg:'' @ py_str E epsg) grids name label props' bands = Inr lit"
    and doc: "doc = JObj (add_optional region geom lit)"
    by (rule stac_transform_InrE)
  from lookup_unknown_constellation [OF l assms(2,3,4)] have
    i: "getitem item ''id'' = Inr label" and n: "getitem props ''platform'' = Inr name"
    and r: "region = None"
    by simp_all
  from lit obtain nm ps where
    nm: "name = JStr nm"
    and lab: "map_of lit ''label'' = Some label"
    and prod: "map_of lit ''product'' = Some (JObj [(''name'', JStr (map lower_char nm))])"
    and ps: "map_of lit ''properties'' = Some (JObj ps)"
    and rc: "map_of ps ''odc:region_code'' = None"
    by (rule stac_odc_literal_InrE) simp
  have "output_field (Inr doc) ''label'' = Inr label"
    using doc lab by (simp add: output_field_def map_of_add_optional_other)
  moreover have "output_field2 (Inr doc) ''product'' ''name'' = Inr (JStr (map lower_char nm))"
    using doc prod by (simp add: output_field2_def output_field_def map_of_add_optional_other)
  moreover have "output_field2 (Inr doc) ''properties'' ''odc:region_code''
             = Inl (KeyError (JStr ''odc:region_code''))"
    using doc r rc map_of_add_optional_properties [OF ps, of None geom]
    by (simp add: output_field2_def output_field_def)
  ultimately show ?thesis using i n nm by blast
qed

theorem unknown_constellation_fallback_witness:
  "JStr ''landsat-8'' \<notin> set KNOWN_CONSTELLATIONS
   \<and> output_field
        (stac_transform example_externals
           (item_of (AList.update ''constellation'' (JStr ''landsat-8'')
                      (AList.update ''platform'' (JStr ''LANDSAT_8'') example_properties))
              example_assets example_footprint) True) ''label''
     = Inr (JStr ''S2A_item_1'')
   \<and> output_field2
        (stac_transform example_externals
           (item_of (AList.update ''constellation'' (JStr ''landsat-8'')
                      (AList.update ''platform'' (JStr ''LANDSAT_8'') example_properties))
              example_assets example_footprint) True) ''product'' ''name''
     = Inr (JStr ''landsat_8'')
   \<and> output_field2
        (stac_transform example_externals
           (item_of (AList.update ''constellation'' (JStr ''landsat-8'')
                      (AList.update ''platform'' (JStr ''LANDSAT_8'') example_properties))
              example_assets example_footprint) True) ''properties'' ''odc:region_code''
     = Inl (KeyError (JStr ''odc:region_code''))"
proof -
  let ?props = "AList.update ''constellation'' (JStr ''landsat-8'')
                      (AList.update ''platform'' (JStr ''LANDSAT_8'') example_properties)"
  let ?item = "item_of ?props example_assets example_footprint"
  obtain doc where d: "stac_transform example_externals ?item True = Inr doc"
    by (simp add: model_defs builtin_defs example_defs cong: and_then_weak_cong)
  have p: "getitem ?item ''properties'' = Inr (JObj ?props)"
    by (simp add: item_of_def)
  have c: "getitem (JObj ?props) ''constellation'' = Inr (JStr ''landsat-8'')"
    by (simp add: example_properties_def)
  have k: "JStr ''landsat-8'' \<notin> set KNOWN_CONSTELLATIONS"
    by (simp add: KNOWN_CONSTELLATIONS_def)
  from unknown_constellation_fallback [OF d p c k] obtain ident platform where
    a: "getitem ?item ''id'' = Inr ident"
       "getitem (JObj ?props) ''platform'' = Inr (JStr platform)"
    and b: "output_field (Inr doc) ''label'' = Inr ident"
       "output_field2 (Inr doc) ''product'' ''name'' = Inr (JStr (map lower_char platform))"
       "output_field2 (Inr doc) ''properties'' ''odc:region_code''
             = Inl (KeyError (JStr ''odc:region_code''))"
    by blast
  from a have "ident = JStr ''S2A_item_1''" "platform = ''LANDSAT_8''"
    by (simp_all add: item_of_def example_properties_def)
  with b d k show ?thesis
    by (simp add: lower_char_def upper_case_def lower_case_def)
qed

text \<open>
  Claim C10. An item whose properties have no \<^verbatim>\<open>constellation\<close> makes
  \<^verbatim>\<open>stac_transform\<close> fail: \<^verbatim>\<open>_stac_product_lookup\<close> raises, and its exception is the
  one of \<^verbatim>\<open>stac_transform\<close>. It is the \<^verbatim>\<open>KeyError\<close> of \<^verbatim>\<open>constellation\<close> when the item
  has an \<^verbatim>\<open>id\<close> and a \<^verbatim>\<open>platform\<close>, and the \<^verbatim>\<open>KeyError\<close> of the first of these that is
  missing otherwise. The fallback is not applied.
\<close>

theorem constellation_required:
  assumes "getitem item ''properties'' = Inr (JObj props)"
    and "map_of props ''constellation'' = None"
  shows "\<exists>e. stac_product_lookup E item = Inl e
           \<and> stac_transform E item rel = Inl e
           \<and> e \<in> {KeyError (JStr ''id''), KeyError (JStr ''platform''),
                   KeyError (JStr ''constellation'')}
           \<and> (\<forall>ident platform.
                 getitem item ''id'' = Inr ident \<and> map_of props ''platform'' = Some platform
                 \<longrightarrow> e = KeyError (JStr ''constellation''))"
proof -
  from assms(1) obtain kvs where item: "item = JObj kvs"
    by (rule getitem_InrE)
  have "\<exists>e. stac_product_lookup E item = Inl e
           \<and> e \<in> {KeyError (JStr ''id''), KeyError (JStr ''platform''),
                   KeyError (JStr ''constellation'')}
           \<and> (\<forall>ident platform.
                 getitem item ''id'' = Inr ident \<and> map_of props ''platform'' = Some platform
                 \<longrightarrow> e = KeyError (JStr ''constellation''))"
    using assms unfolding stac_product_lookup_def item
    by (auto split: option.splits)
  then show ?thesis
    by (auto simp: stac_transform_def)
qed

theorem constellation_required_witness:
  "stac_transform example_externals
     (item_of (AList.delete ''constellation'' example_properties) example_assets example_footprint)
     True
   = Inl (KeyError (JStr ''constellation''))"
proof -
  let ?props = "AList.delete ''constellation'' example_properties"
  let ?item = "item_of ?props example_assets example_footprint"
  have p: "getitem ?item ''properties'' = Inr (JObj ?props)"
    by (simp add: item_of_def)
  have c: "map_of ?props ''constellation'' = None"
    by (simp add: example_properties_def)
  have i: "getitem ?item ''id'' = Inr (JStr ''S2A_item_1'')
         \<and> map_of ?props ''platform'' = Some (JStr ''Sentinel-2A'')"
    by (simp add: item_of_def example_properties_def)
  from constellation_required [OF p c, of example_externals True] i show ?thesis
    by blast
qed

section \<open>The loop over the assets\<close>

lemma succeeds_iff: "succeeds r \<longleftrightarrow> (\<exists>x. r = Inr x)"
  by (cases r) (simp_all add: succeeds_def)

lemma assets_loop_invariant:
  assumes "assets_loop body xs acc = Inr acc'"
    and "P acc"
    and "\<And>x a a'. x \<in> set xs \<Longrightarrow> P a \<Longrightarrow> body x a = Inr a' \<Longrightarrow> P a'"
  shows "P acc'"
  using assms
proof (induction xs arbitrary: acc)
  case Nil
  then show ?case by simp
next
  case (Cons x xs)
  from Cons.prems(1) obtain a where a: "body x acc = Inr a" and r: "assets_loop body xs a = Inr acc'"
    by (auto split: sum.splits)
  from Cons.prems(3) [of x acc a] Cons.prems(2) a have pa: "P a" by simp
  show ?case
  proof (rule Cons.IH [OF r pa])
    fix y b b' assume "y \<in> set xs" "P b" "body y b = Inr b'"
    then show "P b'" using Cons.prems(3) [of y b b'] by simp
  qed
qed

lemma set_update_cases:
  "(k', v') \<in> set (AList.update k v al) \<Longrightarrow> (k', v') = (k, v) \<or> (k', v') \<in> set al"
  by (induction al) (auto split: if_splits)

lemma grid_key_neq_default: "grid_key E a = Inr k \<Longrightarrow> k \<noteq> ''default''"
  by (auto simp: grid_key_def and_then_eq_Inr)

lemma add_grid_cases:
  assumes "add_grid k a grids = Inr grids'"
  shows "k \<in> fst ` set grids \<and> grids' = grids
       \<or> k \<notin> fst ` set grids \<and> (\<exists>shape transform.
            getitem a ''proj:shape'' = Inr shape \<and> getitem a ''proj:transform'' = Inr transform
          \<and> grids' = AList.update k (JObj [(''shape'', shape), (''transform'', transform)]) grids)"
  using assms unfolding add_grid_def
  by (cases "k \<in> fst ` set grids") (auto simp: and_then_eq_Inr)

lemma band_info_cases:
  assumes "band_info dg rel k a = Inr info"
  shows "\<exists>path. info = JObj ((''path'', path) # (if k \<noteq> dg then [(''grid'', JStr k)] else []))"
  using assms unfolding band_info_def
  by (auto simp: and_then_eq_Inr)

text \<open>What one turn of the loop does to the bands and the grids.\<close>

lemma asset_step_cases:
  assumes "asset_step E dg rel (n, a) (bands, grids) = Inr (bands', grids')"
  obtains (skip) ty where "getitem a ''type'' = Inr ty" "ty \<noteq> COG" "bands' = bands" "grids' = grids"
  | (cog) k info where "getitem a ''type'' = Inr COG" "grid_key E a = Inr k"
      "add_grid k a grids = Inr grids'" "band_info dg rel k a = Inr info"
      "bands' = AList.update n info bands"
proof -
  from assms obtain ty where ty: "getitem a ''type'' = Inr ty"
    and rest: "(if ty \<notin> set [COG] then Inr (bands, grids)
       else and_then (grid_key E a) (\<lambda>grid.
            and_then (add_grid grid a grids) (\<lambda>grids'.
            and_then (band_info dg rel grid a) (\<lambda>info.
            Inr (AList.update n info bands, grids'))))) = Inr (bands', grids')"
    unfolding asset_step_def by (auto simp: and_then_eq_Inr)
  show thesis
  proof (cases "ty = COG")
    case True
    with rest obtain k g i where "grid_key E a = Inr k" "add_grid k a grids = Inr g"
      "band_info dg rel k a = Inr i" "bands' = AList.update n i bands" "grids' = g"
      by (auto simp: and_then_eq_Inr)
    with True ty show thesis by (intro cog) simp_all
  next
    case False
    with rest ty show thesis by (intro skip [of ty]) simp_all
  qed
qed


lemma keys_add_grid:
  assumes "add_grid k a grids = Inr grids'"
  shows "fst ` set grids' = insert k (fst ` set grids)"
proof -
  from add_grid_cases [OF assms] show ?thesis
  proof (elim disjE conjE exE)
    assume "k \<in> fst ` set grids" "grids' = grids"
    then show ?thesis by (simp add: insert_absorb)
  next
    fix shape transform
    assume "grids' = AList.update k (JObj [(''shape'', shape), (''transform'', transform)]) grids"
    then show ?thesis by (simp only: dom_update) simp
  qed
qed

lemma distinct_add_grid:
  assumes "add_grid k a grids = Inr grids'" and "distinct (map fst grids)"
  shows "distinct (map fst grids')"
proof -
  from add_grid_cases [OF assms(1)] show ?thesis
  proof (elim disjE conjE exE)
    assume "grids' = grids"
    with assms(2) show ?thesis by simp
  next
    fix shape transform
    assume "grids' = AList.update k (JObj [(''shape'', shape), (''transform'', transform)]) grids"
    with assms(2) show ?thesis by (simp only: distinct_update)
  qed
qed

lemma band_info_grid:
  assumes "band_info dg rel k a = Inr info"
  obtains fields where "info = JObj fields"
    "map_of fields ''grid'' = (if k \<noteq> dg then Some (JStr k) else None)"
proof -
  from band_info_cases [OF assms] obtain path where
    "info = JObj ((''path'', path) # (if k \<noteq> dg then [(''grid'', JStr k)] else []))"
    by blast
  then show thesis
    by (intro that [of "(''path'', path) # (if k \<noteq> dg then [(''grid'', JStr k)] else [])"]) simp_all
qed

lemma bands_refer_step:
  assumes "bands_refer dg acc" and "asset_step E dg rel x acc = Inr acc'"
  shows "bands_refer dg acc'"
proof -
  obtain n a bands grids bands' grids' where
    x: "x = (n, a)" and acc: "acc = (bands, grids)" and acc': "acc' = (bands', grids')"
    by (cases x, cases acc, cases acc') auto
  from assms(2) [unfolded x acc acc'] show ?thesis
  proof (cases rule: asset_step_cases)
    case (skip ty)
    with assms(1) acc acc' show ?thesis by simp
  next
    case (cog k info)
    from cog(3) have keys: "fst ` set grids' = insert k (fst ` set grids)"
      by (rule keys_add_grid)
    from assms(1) acc have d: "distinct (map fst grids)"
      by (simp add: bands_refer_def)
    from cog(4) obtain fields where
      info: "info = JObj fields"
      and ref: "map_of fields ''grid'' = (if k \<noteq> dg then Some (JStr k) else None)"
      by (rule band_info_grid)
    from keys have kin: "k \<in> fst ` set grids'" and mono: "fst ` set grids \<subseteq> fst ` set grids'"
      by blast+
    have new: "map_of fields ''grid'' = None
            \<or> (\<exists>k'. map_of fields ''grid'' = Some (JStr k') \<and> k' \<in> fst ` set grids' \<and> k' \<noteq> dg)"
      using ref kin by (cases "k = dg") simp_all
    have "\<exists>i. b = JObj i \<and>
           (map_of i ''grid'' = None
            \<or> (\<exists>k. map_of i ''grid'' = Some (JStr k) \<and> k \<in> fst ` set grids' \<and> k \<noteq> dg))"
      if "(m, b) \<in> set bands'" for m b
    proof -
      from that cog(5) have "(m, b) = (n, info) \<or> (m, b) \<in> set bands"
        using set_update_cases [of m b n info bands] by simp
      then show ?thesis
      proof
        assume "(m, b) = (n, info)"
        with info new show ?thesis by simp
      next
        assume mb: "(m, b) \<in> set bands"
        from assms(1) acc have "\<forall>(n, b) \<in> set bands. \<exists>info. b = JObj info \<and>
           (map_of info ''grid'' = None
            \<or> (\<exists>k. map_of info ''grid'' = Some (JStr k) \<and> k \<in> fst ` set grids \<and> k \<noteq> dg))"
          by (simp add: bands_refer_def)
        from bspec [OF this mb] obtain i where i: "b = JObj i"
          and old: "map_of i ''grid'' = None
            \<or> (\<exists>k. map_of i ''grid'' = Some (JStr k) \<and> k \<in> fst ` set grids \<and> k \<noteq> dg)"
          by auto
        from old mono have "map_of i ''grid'' = None
            \<or> (\<exists>k. map_of i ''grid'' = Some (JStr k) \<and> k \<in> fst ` set grids' \<and> k \<noteq> dg)"
          by blast
        with i show ?thesis by blast
      qed
    qed
    with distinct_add_grid [OF cog(3) d] acc' show ?thesis
      unfolding bands_refer_def by blast
  qed
qed

lemma bands_refer_loop:
  assumes "assets_loop (asset_step E dg rel) xs ([], []) = Inr acc"
  shows "bands_refer dg acc"
  using assms
proof (rule assets_loop_invariant)
  show "bands_refer dg ([], [])" by (simp add: bands_refer_def)
next
  fix x a a' assume "bands_refer dg a" "asset_step E dg rel x a = Inr a'"
  then show "bands_refer dg a'" by (rule bands_refer_step)
qed

lemma get_stac_bands_InrE:
  assumes "get_stac_bands E item dg rel = Inr (bands, grids')"
  obtains assets grids gd where
    "getitem item ''assets'' = Inr (JObj assets)"
    "assets_loop (asset_step E dg rel) assets ([], []) = Inr (bands, grids)"
    "map_of grids dg = Some gd"
    "grids' = AList.delete dg (AList.update ''default'' gd grids)"
proof -
  from assms obtain av assets acc where
    a: "getitem item ''assets'' = Inr av" and i: "items av = Inr assets"
    and l: "assets_loop (asset_step E dg rel) assets ([], []) = Inr acc"
    and f: "(case acc of (bands, grids) \<Rightarrow>
              (case map_of grids dg of
                 None \<Rightarrow> Inl (KeyError (JStr dg))
               | Some grid \<Rightarrow> Inr (bands, AList.delete dg (AList.update ''default'' grid grids))))
            = Inr (bands, grids')"
    unfolding get_stac_bands_def by (auto simp: and_then_eq_Inr)
  from i have av: "av = JObj assets" by (cases av) simp_all
  obtain b g where acc: "acc = (b, g)" by (cases acc)
  from f acc obtain gd where "map_of g dg = Some gd" "b = bands"
    "grids' = AList.delete dg (AList.update ''default'' gd g)"
    by (auto split: option.splits)
  with a av l acc show thesis by (intro that [of assets g gd]) simp_all
qed

lemma one_entry:
  "distinct (map fst al) \<Longrightarrow> k \<in> fst ` set al \<Longrightarrow> length (filter (\<lambda>kv. fst kv = k) al) = 1"
proof (induction al)
  case Nil
  then show ?case by simp
next
  case (Cons x al)
  show ?case
  proof (cases "fst x = k")
    case True
    from Cons.prems(1) True have "k \<notin> fst ` set al" by simp
    then have "filter (\<lambda>kv. fst kv = k) al = []"
      by (auto simp: filter_empty_conv intro: rev_image_eqI)
    with True show ?thesis by simp
  next
    case False
    with Cons show ?thesis by auto
  qed
qed

lemma renamed_keys:
  "fst ` set (AList.delete dg (AList.update ''default'' gd grids))
     = insert ''default'' (fst ` set grids) - {dg}"
  by (simp only: delete_keys [symmetric] set_map [symmetric]) (auto simp: delete_keys update_keys)

lemma assets_loop_Cons_InrE:
  assumes "assets_loop body (x # xs) acc = Inr acc'"
  obtains a where "body x acc = Inr a" "assets_loop body xs a = Inr acc'"
  using assms by (auto split: sum.splits)

lemma asset_step_bands_frame:
  assumes "asset_step E dg rel (m, a) (b0, g0) = Inr (b1, g1)" and "n \<noteq> m"
  shows "map_of b1 n = map_of b0 n"
  using assms(1)
proof (cases rule: asset_step_cases)
  case (skip ty)
  then show ?thesis by simp
next
  case (cog k info)
  with assms(2) show ?thesis by (simp add: update_conv')
qed

lemma asset_step_keys_mono:
  assumes "asset_step E dg rel (m, a) (b0, g0) = Inr (b1, g1)"
  shows "fst ` set g0 \<subseteq> fst ` set g1"
  using assms
proof (cases rule: asset_step_cases)
  case (skip ty)
  then show ?thesis by simp
next
  case (cog k info)
  from keys_add_grid [OF cog(3)] show ?thesis by blast
qed

lemma loop_bands_frame:
  assumes "assets_loop (asset_step E dg rel) xs (b0, g0) = Inr (b, g)" and "n \<notin> fst ` set xs"
  shows "map_of b n = map_of b0 n"
  using assms
proof (induction xs arbitrary: b0 g0)
  case Nil
  then show ?case by simp
next
  case (Cons x xs)
  obtain m a where x: "x = (m, a)" by (cases x)
  from Cons.prems(1) obtain acc1 where
    s: "asset_step E dg rel x (b0, g0) = Inr acc1"
    and r: "assets_loop (asset_step E dg rel) xs acc1 = Inr (b, g)"
    by (rule assets_loop_Cons_InrE)
  obtain b1 g1 where acc1: "acc1 = (b1, g1)" by (cases acc1)
  from Cons.prems(2) x have "n \<noteq> m" and nin: "n \<notin> fst ` set xs" by auto
  with s x acc1 have "map_of b1 n = map_of b0 n"
    using asset_step_bands_frame by blast
  moreover from Cons.IH [OF r [unfolded acc1] nin] have "map_of b n = map_of b1 n" .
  ultimately show ?case by simp
qed

lemma loop_keys_mono:
  assumes "assets_loop (asset_step E dg rel) xs (b0, g0) = Inr (b, g)"
  shows "fst ` set g0 \<subseteq> fst ` set g"
  using assms
proof (induction xs arbitrary: b0 g0)
  case Nil
  then show ?case by simp
next
  case (Cons x xs)
  obtain m a where x: "x = (m, a)" by (cases x)
  from Cons.prems(1) obtain acc1 where
    s: "asset_step E dg rel x (b0, g0) = Inr acc1"
    and r: "assets_loop (asset_step E dg rel) xs acc1 = Inr (b, g)"
    by (rule assets_loop_Cons_InrE)
  obtain b1 g1 where acc1: "acc1 = (b1, g1)" by (cases acc1)
  from s x acc1 have "fst ` set g0 \<subseteq> fst ` set g1"
    using asset_step_keys_mono by blast
  moreover from Cons.IH [OF r [unfolded acc1]] have "fst ` set g1 \<subseteq> fst ` set g" .
  ultimately show ?case by blast
qed

text \<open>The band of an asset, once the loop is through.\<close>

lemma loop_band_of_asset:
  assumes "assets_loop (asset_step E dg rel) xs (b0, g0) = Inr (b, g)"
    and "distinct (map fst xs)"
    and "(n, a) \<in> set xs"
    and "getitem a ''type'' = Inr COG"
  shows "\<exists>k info. grid_key E a = Inr k \<and> band_info dg rel k a = Inr info
           \<and> map_of b n = Some info \<and> k \<in> fst ` set g"
  using assms(1,2,3)
proof (induction xs arbitrary: b0 g0)
  case Nil
  then show ?case by simp
next
  case (Cons x xs)
  from Cons.prems(1) obtain acc1 where
    s: "asset_step E dg rel x (b0, g0) = Inr acc1"
    and r: "assets_loop (asset_step E dg rel) xs acc1 = Inr (b, g)"
    by (rule assets_loop_Cons_InrE)
  obtain b1 g1 where acc1: "acc1 = (b1, g1)" by (cases acc1)
  show ?case
  proof (cases "x = (n, a)")
    case True
    from s [unfolded True acc1] obtain k info where
      k: "grid_key E a = Inr k" and g1: "add_grid k a g0 = Inr g1"
      and info: "band_info dg rel k a = Inr info" and b1: "b1 = AList.update n info b0"
      using assms(4) by (cases rule: asset_step_cases) simp_all
    from Cons.prems(2) True have "n \<notin> fst ` set xs" by simp
    from loop_bands_frame [OF r [unfolded acc1] this] b1 have "map_of b n = Some info"
      by (simp add: update_conv')
    moreover from keys_add_grid [OF g1] loop_keys_mono [OF r [unfolded acc1]]
    have "k \<in> fst ` set g" by blast
    ultimately show ?thesis using k info by blast
  next
    case False
    with Cons.prems(3) have "(n, a) \<in> set xs" by simp
    moreover from Cons.prems(2) have "distinct (map fst xs)" by simp
    ultimately show ?thesis using Cons.IH [OF r [unfolded acc1]] by blast
  qed
qed

lemma band_grid_of_info:
  assumes "band_info dg rel k a = Inr info" and "map_of bands n = Some info"
  shows "band_grid bands n = Some (if k \<noteq> dg then k else ''default'')"
proof -
  from assms(1) obtain fields where "info = JObj fields"
    "map_of fields ''grid'' = (if k \<noteq> dg then Some (JStr k) else None)"
    by (rule band_info_grid)
  with assms(2) show ?thesis by (simp add: band_grid_def)
qed

lemma asset_step_new_keys:
  assumes "asset_step E dg rel (m, a) (b0, g0) = Inr (b1, g1)" and "k \<in> fst ` set g1"
  shows "k \<in> fst ` set g0 \<or> (getitem a ''type'' = Inr COG \<and> grid_key E a = Inr k)"
  using assms(1)
proof (cases rule: asset_step_cases)
  case (skip ty)
  with assms(2) show ?thesis by simp
next
  case (cog k' info)
  from keys_add_grid [OF cog(3)] assms(2) have "k = k' \<or> k \<in> fst ` set g0" by blast
  with cog(1,2) show ?thesis by blast
qed

lemma loop_keys_from_assets:
  assumes "assets_loop (asset_step E dg rel) xs (b0, g0) = Inr (b, g)" and "k \<in> fst ` set g"
  shows "k \<in> fst ` set g0
       \<or> (\<exists>(n, a) \<in> set xs. getitem a ''type'' = Inr COG \<and> grid_key E a = Inr k)"
  using assms
proof (induction xs arbitrary: b0 g0)
  case Nil
  then show ?case by simp
next
  case (Cons x xs)
  obtain m a where x: "x = (m, a)" by (cases x)
  from Cons.prems(1) obtain acc1 where
    s: "asset_step E dg rel x (b0, g0) = Inr acc1"
    and r: "assets_loop (asset_step E dg rel) xs acc1 = Inr (b, g)"
    by (rule assets_loop_Cons_InrE)
  obtain b1 g1 where acc1: "acc1 = (b1, g1)" by (cases acc1)
  from Cons.IH [OF r [unfolded acc1] Cons.prems(2)]
  show ?case
  proof
    assume "k \<in> fst ` set g1"
    from asset_step_new_keys [OF s [unfolded x acc1] this] x show ?thesis by auto
  next
    assume "\<exists>(n, a) \<in> set xs. getitem a ''type'' = Inr COG \<and> grid_key E a = Inr k"
    then show ?thesis by auto
  qed
qed

lemma well_formed_step:
  assumes "well_formed_asset E rel a"
  shows "\<exists>acc'. asset_step E dg rel (n, a) acc = Inr acc'"
proof -
  obtain bands grids where acc: "acc = (bands, grids)" by (cases acc)
  from assms obtain ty where ty: "getitem a ''type'' = Inr ty"
    by (auto simp: well_formed_asset_def succeeds_iff)
  show ?thesis
  proof (cases "ty = COG")
    case False
    with ty acc show ?thesis by (simp add: asset_step_def)
  next
    case True
    with assms ty obtain k shape path where
      k: "grid_key E a = Inr k" and sh: "getitem a ''proj:shape'' = Inr shape"
      and p: "and_then (getitem a ''href'') (\<lambda>href. if rel then path_name href else Inr href)
               = Inr path"
      by (auto simp: well_formed_asset_def succeeds_iff)
    from k obtain tr where tr: "getitem a ''proj:transform'' = Inr tr"
      by (auto simp: grid_key_def and_then_eq_Inr)
    from sh tr have "\<exists>g'. add_grid k a grids = Inr g'"
      by (simp add: add_grid_def)
    moreover have "\<exists>info. band_info dg rel k a = Inr info"
    proof -
      from p obtain href where "getitem a ''href'' = Inr href"
        "(if rel then path_name href else Inr href) = Inr path"
        by (auto simp: and_then_eq_Inr)
      then show ?thesis by (simp add: band_info_def)
    qed
    ultimately show ?thesis
      using ty True k acc by (auto simp: asset_step_def)
  qed
qed

lemma well_formed_loop:
  assumes "\<forall>(n, a) \<in> set xs. well_formed_asset E rel a"
  shows "\<exists>acc'. assets_loop (asset_step E dg rel) xs acc = Inr acc'"
  using assms
proof (induction xs arbitrary: acc)
  case Nil
  then show ?case by simp
next
  case (Cons x xs)
  obtain n a where x: "x = (n, a)" by (cases x)
  with Cons.prems have "well_formed_asset E rel a" by simp
  then obtain acc1 where s: "asset_step E dg rel (n, a) acc = Inr acc1"
    using well_formed_step by blast
  from Cons.prems have "\<forall>(n, a) \<in> set xs. well_formed_asset E rel a" by simp
  from Cons.IH [OF this, of acc1] s x show ?case by simp
qed

lemma no_default_grid_loop:
  assumes "assets_loop (asset_step E dg rel) xs ([], []) = Inr (b, g)"
    and "\<forall>(n, a) \<in> set xs. getitem a ''type'' = Inr COG \<longrightarrow> grid_key E a \<noteq> Inr dg"
  shows "map_of g dg = None"
proof (rule ccontr)
  assume "map_of g dg \<noteq> None"
  then have "dg \<in> fst ` set g" by (simp add: map_of_eq_None_iff)
  from loop_keys_from_assets [OF assms(1) this] assms(2) show False by auto
qed

lemma add_grid_frame:
  assumes "add_grid k' a g0 = Inr g1" and "k \<in> fst ` set g0"
  shows "map_of g1 k = map_of g0 k"
proof -
  from add_grid_cases [OF assms(1)] show ?thesis
  proof (elim disjE conjE exE)
    assume "g1 = g0"
    then show ?thesis by simp
  next
    fix shape transform
    assume n: "k' \<notin> fst ` set g0"
      and g1: "g1 = AList.update k' (JObj [(''shape'', shape), (''transform'', transform)]) g0"
    from n assms(2) have "k \<noteq> k'" by blast
    with g1 show ?thesis by (simp add: update_conv')
  qed
qed

lemma asset_step_grids_frame:
  assumes "asset_step E dg rel (m, a) (b0, g0) = Inr (b1, g1)" and "k \<in> fst ` set g0"
  shows "map_of g1 k = map_of g0 k"
  using assms(1)
proof (cases rule: asset_step_cases)
  case (skip ty)
  then show ?thesis by simp
next
  case (cog k' info)
  from add_grid_frame [OF cog(3) assms(2)] show ?thesis .
qed

lemma loop_grids_frame:
  assumes "assets_loop (asset_step E dg rel) xs (b0, g0) = Inr (b, g)" and "k \<in> fst ` set g0"
  shows "map_of g k = map_of g0 k"
  using assms
proof (induction xs arbitrary: b0 g0)
  case Nil
  then show ?case by simp
next
  case (Cons x xs)
  obtain m a where x: "x = (m, a)" by (cases x)
  from Cons.prems(1) obtain acc1 where
    s: "asset_step E dg rel x (b0, g0) = Inr acc1"
    and r: "assets_loop (asset_step E dg rel) xs acc1 = Inr (b, g)"
    by (rule assets_loop_Cons_InrE)
  obtain b1 g1 where acc1: "acc1 = (b1, g1)" by (cases acc1)
  from asset_step_grids_frame [OF s [unfolded x acc1] Cons.prems(2)]
  have 1: "map_of g1 k = map_of g0 k" .
  from asset_step_keys_mono [OF s [unfolded x acc1]] Cons.prems(2)
  have "k \<in> fst ` set g1" by blast
  from Cons.IH [OF r [unfolded acc1] this] 1 show ?case by simp
qed

text \<open>The entry of a grid is made of the first asset that has its key.\<close>

lemma loop_descriptor:
  assumes "assets_loop (asset_step E dg rel) xs (b0, g0) = Inr (b, g)"
    and "k \<notin> fst ` set g0"
    and "first_of_grid E k xs = Some f"
  shows "\<exists>d. descriptor (snd f) = Inr d \<and> map_of g k = Some d"
  using assms
proof (induction xs arbitrary: b0 g0)
  case Nil
  then show ?case by (simp add: first_of_grid_def)
next
  case (Cons x xs)
  obtain m a where x: "x = (m, a)" by (cases x)
  from Cons.prems(1) obtain acc1 where
    s: "asset_step E dg rel x (b0, g0) = Inr acc1"
    and r: "assets_loop (asset_step E dg rel) xs acc1 = Inr (b, g)"
    by (rule assets_loop_Cons_InrE)
  obtain b1 g1 where acc1: "acc1 = (b1, g1)" by (cases acc1)
  show ?case
  proof (cases "getitem a ''type'' = Inr COG \<and> grid_key E a = Inr k")
    case True
    with Cons.prems(3) x have f: "f = (m, a)" by (simp add: first_of_grid_def)
    from s [unfolded x acc1] True obtain info where g1: "add_grid k a g0 = Inr g1"
      by (cases rule: asset_step_cases) simp_all
    from add_grid_cases [OF g1] Cons.prems(2) obtain shape transform where
      sh: "getitem a ''proj:shape'' = Inr shape" and tr: "getitem a ''proj:transform'' = Inr transform"
      and u: "g1 = AList.update k (JObj [(''shape'', shape), (''transform'', transform)]) g0"
      by blast
    from u have k1: "map_of g1 k = Some (JObj [(''shape'', shape), (''transform'', transform)])"
      by (simp add: update_conv')
    then have "k \<in> fst ` set g1"
      by (metis map_of_eq_None_iff option.distinct(1))
    from loop_grids_frame [OF r [unfolded acc1] this] k1
    have "map_of g k = Some (JObj [(''shape'', shape), (''transform'', transform)])" by simp
    moreover from sh tr have "descriptor a = Inr (JObj [(''shape'', shape), (''transform'', transform)])"
      by (simp add: descriptor_def)
    ultimately show ?thesis using f by simp
  next
    case False
    with Cons.prems(3) x have f: "first_of_grid E k xs = Some f"
      by (auto simp: first_of_grid_def)
    have "k \<notin> fst ` set g1"
    proof
      assume "k \<in> fst ` set g1"
      from asset_step_new_keys [OF s [unfolded x acc1] this] Cons.prems(2) False
      show False by blast
    qed
    from Cons.IH [OF r [unfolded acc1] this f] show ?thesis .
  qed
qed

lemma first_of_grid_exists:
  assumes "(n, a) \<in> set xs" and "getitem a ''type'' = Inr COG" and "grid_key E a = Inr k"
  shows "\<exists>f. first_of_grid E k xs = Some f"
proof (cases "first_of_grid E k xs")
  case None
  with assms show ?thesis
    by (auto simp: first_of_grid_def find_None_iff)
next
  case (Some f)
  then show ?thesis by simp
qed

lemma renamed_entry:
  assumes "map_of g ''g10m'' = Some gd" and "k \<noteq> ''default''"
  shows "map_of (AList.delete ''g10m'' (AList.update ''default'' gd g))
           (if k \<noteq> ''g10m'' then k else ''default'') = map_of g k"
  using assms by (simp add: delete_conv' update_conv')

section \<open>Grids and bands of the result\<close>

text \<open>
  Claim C2. When \<^verbatim>\<open>stac_transform\<close> succeeds, the \<^verbatim>\<open>grids\<close> of the result have exactly one
  entry with the key \<^verbatim>\<open>default\<close> and none with the key \<^verbatim>\<open>g10m\<close>, and every band of
  \<^verbatim>\<open>measurements\<close> either has no \<^verbatim>\<open>grid\<close> or names, as its \<^verbatim>\<open>grid\<close>, a key of \<^verbatim>\<open>grids\<close>.
\<close>

theorem grids_and_bands_consistent:
  assumes "stac_transform E item rel = Inr doc"
  shows "\<exists>grids bands.
           output_field (Inr doc) ''grids'' = Inr (JObj grids)
         \<and> output_field (Inr doc) ''measurements'' = Inr (JObj bands)
         \<and> length (filter (\<lambda>kv. fst kv = ''default'') grids) = 1
         \<and> ''g10m'' \<notin> fst ` set grids
         \<and> (\<forall>(n, b) \<in> set bands. \<exists>info. b = JObj info \<and>
               (map_of info ''grid'' = None
                \<or> (\<exists>k. map_of info ''grid'' = Some (JStr k) \<and> k \<in> fst ` set grids)))"
proof -
  from assms obtain label name region bands grids props epsg geom lit where
    bg: "get_stac_bands E item ''g10m'' rel = Inr (bands, grids)"
    and lit: "stac_odc_literal (odc_uuid E ''sentinel-2_stac_process'' ''1.0.0'' [label])
       (''epsg:'' @ py_str E epsg) grids name label props bands = Inr lit"
    and doc: "doc = JObj (add_optional region geom lit)"
    by (rule stac_transform_InrE)
  from lit have "map_of lit ''grids'' = Some (JObj grids)"
    and "map_of lit ''measurements'' = Some (JObj bands)"
    by (rule stac_odc_literal_InrE, simp)+
  with doc have out: "output_field (Inr doc) ''grids'' = Inr (JObj grids)"
    "output_field (Inr doc) ''measurements'' = Inr (JObj bands)"
    by (simp_all add: output_field_def map_of_add_optional_other)
  from bg obtain assets g gd where
    loop: "assets_loop (asset_step E ''g10m'' rel) assets ([], []) = Inr (bands, g)"
    and gd: "map_of g ''g10m'' = Some gd"
    and grids: "grids = AList.delete ''g10m'' (AList.update ''default'' gd g)"
    by (rule get_stac_bands_InrE)
  from bands_refer_loop [OF loop] have dist: "distinct (map fst g)"
    and refs: "\<forall>(n, b) \<in> set bands. \<exists>info. b = JObj info \<and>
           (map_of info ''grid'' = None
            \<or> (\<exists>k. map_of info ''grid'' = Some (JStr k) \<and> k \<in> fst ` set g \<and> k \<noteq> ''g10m''))"
    by (simp_all add: bands_refer_def)
  have keys: "fst ` set grids = insert ''default'' (fst ` set g) - {''g10m''}"
    unfolding grids by (rule renamed_keys)
  have "distinct (map fst grids)"
    unfolding grids using dist by (simp add: distinct_delete distinct_update)
  moreover from keys have "''default'' \<in> fst ` set grids" by simp
  ultimately have one: "length (filter (\<lambda>kv. fst kv = ''default'') grids) = 1"
    by (rule one_entry)
  from keys have no: "''g10m'' \<notin> fst ` set grids" by simp
  have "\<forall>(n, b) \<in> set bands. \<exists>info. b = JObj info \<and>
               (map_of info ''grid'' = None
                \<or> (\<exists>k. map_of info ''grid'' = Some (JStr k) \<and> k \<in> fst ` set grids))"
  proof (intro ballI, clarify)
    fix n b assume nb: "(n, b) \<in> set bands"
    from bspec [OF refs nb] obtain info where i: "b = JObj info"
      and r: "map_of info ''grid'' = None
            \<or> (\<exists>k. map_of info ''grid'' = Some (JStr k) \<and> k \<in> fst ` set g \<and> k \<noteq> ''g10m'')"
      by auto
    have "map_of info ''grid'' = None
                \<or> (\<exists>k. map_of info ''grid'' = Some (JStr k) \<and> k \<in> fst ` set grids)"
      using r
    proof
      assume "map_of info ''grid'' = None"
      then show ?thesis by simp
    next
      assume "\<exists>k. map_of info ''grid'' = Some (JStr k) \<and> k \<in> fst ` set g \<and> k \<noteq> ''g10m''"
      then obtain k where k: "map_of info ''grid'' = Some (JStr k)" "k \<in> fst ` set g" "k \<noteq> ''g10m''"
        by blast
      from k(2,3) have "k \<in> fst ` set grids" unfolding keys by simp
      with k(1) show ?thesis by simp
    qed
    with i show "\<exists>info. b = JObj info \<and>
               (map_of info ''grid'' = None
                \<or> (\<exists>k. map_of info ''grid'' = Some (JStr k) \<and> k \<in> fst ` set grids))"
      by blast
  qed
  with out one no show ?thesis by blast
qed

text \<open>An item with a band of 10 metres and a band of 20 metres.\<close>

theorem grids_and_bands_consistent_witness:
  "output_field (stac_transform example_externals two_grid_item True) ''grids''
     = Inr (JObj
         [(''g20m'', JObj [(''shape'', JArr [JInt 10980, JInt 10980]),
            (''transform'', JArr [JInt 20, JInt 0, JInt 600000, JInt 0, JInt (- 20), JInt 5900040])]),
          (''default'', JObj [(''shape'', JArr [JInt 10980, JInt 10980]),
            (''transform'', JArr [JInt 10, JInt 0, JInt 600000, JInt 0, JInt (- 10), JInt 5900040])])])
   \<and> output_field (stac_transform example_externals two_grid_item True) ''measurements''
     = Inr (JObj
         [(''B02'', JObj [(''path'', JStr ''B02.tif'')]),
          (''B05'', JObj [(''path'', JStr ''B05.tif''), (''grid'', JStr ''g20m'')])])
   \<and> length (filter (\<lambda>kv. fst kv = ''default'')
         [(''g20m'', JObj [(''shape'', JArr [JInt 10980, JInt 10980]),
            (''transform'', JArr [JInt 20, JInt 0, JInt 600000, JInt 0, JInt (- 20), JInt 5900040])]),
          (''default'', JObj [(''shape'', JArr [JInt 10980, JInt 10980]),
            (''transform'', JArr [JInt 10, JInt 0, JInt 600000, JInt 0, JInt (- 10), JInt 5900040])])])
       = 1"
proof -
  let ?R = "stac_transform example_externals two_grid_item True"
  let ?G = "[(''g20m'', JObj [(''shape'', JArr [JInt 10980, JInt 10980]),
            (''transform'', JArr [JInt 20, JInt 0, JInt 600000, JInt 0, JInt (- 20), JInt 5900040])]),
          (''default'', JObj [(''shape'', JArr [JInt 10980, JInt 10980]),
            (''transform'', JArr [JInt 10, JInt 0, JInt 600000, JInt 0, JInt (- 10), JInt 5900040])])]"
  obtain doc where d: "?R = Inr doc"
    by (simp add: model_defs builtin_defs example_defs cong: and_then_weak_cong)
  have g': "output_field ?R ''grids'' = Inr (JObj ?G)"
    by (simp add: output_field_def model_defs builtin_defs example_defs cong: and_then_weak_cong)
  have b': "output_field ?R ''measurements''
     = Inr (JObj
         [(''B02'', JObj [(''path'', JStr ''B02.tif'')]),
          (''B05'', JObj [(''path'', JStr ''B05.tif''), (''grid'', JStr ''g20m'')])])"
    by (simp add: output_field_def model_defs builtin_defs example_defs cong: and_then_weak_cong)
  from grids_and_bands_consistent [OF d] obtain grids where
    g: "output_field (Inr doc) ''grids'' = Inr (JObj grids)"
    and one: "length (filter (\<lambda>kv. fst kv = ''default'') grids) = 1"
    by blast
  from g g' d have "grids = ?G" by simp
  with one g' b' show ?thesis by simp
qed

text \<open>
  Claim C3 as it is written says that assets whose transforms differ are placed in
  different grid entries. The key of the grid is made of the first element of the
  transform alone: two assets of pixel spacing 10 whose transforms differ in the third
  element share the entry \<^verbatim>\<open>default\<close>, which holds the transform of the first of them.
\<close>

theorem shared_grid_counterexample:
  "getitem (cog_asset 10 600000 ''s3://s2/B02.tif'') ''proj:transform''
     \<noteq> getitem (cog_asset 10 700000 ''s3://s2/B03.tif'') ''proj:transform''
   \<and> get_stac_bands example_externals shifted_item ''g10m'' True
     = Inr ([(''B02'', JObj [(''path'', JStr ''B02.tif'')]),
             (''B03'', JObj [(''path'', JStr ''B03.tif'')])],
            [(''default'', JObj [(''shape'', JArr [JInt 10980, JInt 10980]),
               (''transform'',
                JArr [JInt 10, JInt 0, JInt 600000, JInt 0, JInt (- 10), JInt 5900040])])])"
  by (simp add: model_defs builtin_defs example_defs cong: and_then_weak_cong)

text \<open>
  Claim C3, amended. When \<^verbatim>\<open>_get_stac_bands\<close> succeeds on an item, two of its
  cloud-optimized assets have their bands in the same entry of \<^verbatim>\<open>grids\<close> if and only if
  their grid keys \<^verbatim>\<open>f'g{transform[0]:g}m'\<close> are the same string; the other elements of
  the transforms play no part in it. The entry of a band holds the shape and the
  transform of the first asset of the item, in its order, that is a cloud-optimized
  GeoTIFF of the same grid key.
\<close>

theorem same_grid_iff_same_key:
  assumes "get_stac_bands E item ''g10m'' rel = Inr (bands, grids)"
    and "getitem item ''assets'' = Inr (JObj assets)"
    and "distinct (map fst assets)"
    and "(n1, a1) \<in> set assets" and "getitem a1 ''type'' = Inr COG"
    and "(n2, a2) \<in> set assets" and "getitem a2 ''type'' = Inr COG"
  shows "\<exists>k1 k2 e1 e2 f1 f2 d1 d2.
           grid_key E a1 = Inr k1 \<and> grid_key E a2 = Inr k2
         \<and> band_grid bands n1 = Some e1 \<and> e1 \<in> fst ` set grids
         \<and> band_grid bands n2 = Some e2 \<and> e2 \<in> fst ` set grids
         \<and> (e1 = e2 \<longleftrightarrow> k1 = k2)
         \<and> first_of_grid E k1 assets = Some f1 \<and> descriptor (snd f1) = Inr d1
         \<and> map_of grids e1 = Some d1
         \<and> first_of_grid E k2 assets = Some f2 \<and> descriptor (snd f2) = Inr d2
         \<and> map_of grids e2 = Some d2"
proof -
  from assms(1) obtain assets' g gd where
    a: "getitem item ''assets'' = Inr (JObj assets')"
    and loop: "assets_loop (asset_step E ''g10m'' rel) assets' ([], []) = Inr (bands, g)"
    and gd: "map_of g ''g10m'' = Some gd"
    and grids: "grids = AList.delete ''g10m'' (AList.update ''default'' gd g)"
    by (rule get_stac_bands_InrE)
  from a assms(2) have eq: "assets' = assets" by simp
  have keys: "fst ` set grids = insert ''default'' (fst ` set g) - {''g10m''}"
    unfolding grids by (rule renamed_keys)
  have band: "\<exists>k e f d. grid_key E a = Inr k \<and> band_grid bands n = Some e \<and> e \<in> fst ` set grids
                \<and> e = (if k \<noteq> ''g10m'' then k else ''default'')
                \<and> first_of_grid E k assets = Some f \<and> descriptor (snd f) = Inr d
                \<and> map_of grids e = Some d"
    if "(n, a) \<in> set assets" "getitem a ''type'' = Inr COG" for n a
  proof -
    from loop_band_of_asset [OF loop [unfolded eq] assms(3) that] obtain k info where
      k: "grid_key E a = Inr k" and i: "band_info ''g10m'' rel k a = Inr info"
      and b: "map_of bands n = Some info" and kin: "k \<in> fst ` set g"
      by blast
    from band_grid_of_info [OF i b]
    have e: "band_grid bands n = Some (if k \<noteq> ''g10m'' then k else ''default'')" .
    from kin have ein: "(if k \<noteq> ''g10m'' then k else ''default'') \<in> fst ` set grids"
      unfolding keys by simp
    from first_of_grid_exists [OF that k] obtain f where f: "first_of_grid E k assets = Some f"
      by blast
    have "k \<notin> fst ` set ([] :: (string \<times> json) list)" by simp
    from loop_descriptor [OF loop [unfolded eq] this f] obtain d where
      d: "descriptor (snd f) = Inr d" and gk: "map_of g k = Some d"
      by blast
    from k have "k \<noteq> ''default''" by (rule grid_key_neq_default)
    from renamed_entry [OF gd this] gk
    have "map_of grids (if k \<noteq> ''g10m'' then k else ''default'') = Some d"
      unfolding grids by simp
    with k e ein f d show ?thesis by blast
  qed
  from band [OF assms(4,5)] obtain k1 e1 f1 d1 where
    1: "grid_key E a1 = Inr k1" "band_grid bands n1 = Some e1" "e1 \<in> fst ` set grids"
       "e1 = (if k1 \<noteq> ''g10m'' then k1 else ''default'')"
    and c1: "first_of_grid E k1 assets = Some f1" "descriptor (snd f1) = Inr d1"
       "map_of grids e1 = Some d1"
    by blast
  from band [OF assms(6,7)] obtain k2 e2 f2 d2 where
    2: "grid_key E a2 = Inr k2" "band_grid bands n2 = Some e2" "e2 \<in> fst ` set grids"
       "e2 = (if k2 \<noteq> ''g10m'' then k2 else ''default'')"
    and c2: "first_of_grid E k2 assets = Some f2" "descriptor (snd f2) = Inr d2"
       "map_of grids e2 = Some d2"
    by blast
  from 1(1) 2(1) have "k1 \<noteq> ''default''" "k2 \<noteq> ''default''"
    by (simp_all add: grid_key_neq_default)
  with 1(4) 2(4) have iff: "e1 = e2 \<longleftrightarrow> k1 = k2"
    by (cases "k1 = ''g10m''"; cases "k2 = ''g10m''") simp_all
  show ?thesis
    by (intro exI [of _ k1] exI [of _ k2] exI [of _ e1] exI [of _ e2] exI [of _ f1]
        exI [of _ f2] exI [of _ d1] exI [of _ d2] conjI)
       (fact 1(1) 2(1) 1(2) 1(3) 2(2) 2(3) iff c1 c2)+
qed

text \<open>
  The item whose two bands of 10 metres lie 100 kilometres apart: both bands are in the
  entry \<^verbatim>\<open>default\<close>, which is made of the first of them.
\<close>

theorem same_grid_iff_same_key_witness:
  "grid_key example_externals (cog_asset 10 600000 ''s3://s2/B02.tif'') = Inr ''g10m''
   \<and> grid_key example_externals (cog_asset 10 700000 ''s3://s2/B03.tif'') = Inr ''g10m''
   \<and> band_grid
        [(''B02'', JObj [(''path'', JStr ''B02.tif'')]),
         (''B03'', JObj [(''path'', JStr ''B03.tif'')])] ''B02''
     = Some ''default''
   \<and> band_grid
        [(''B02'', JObj [(''path'', JStr ''B02.tif'')]),
         (''B03'', JObj [(''path'', JStr ''B03.tif'')])] ''B03''
     = Some ''default''
   \<and> first_of_grid example_externals ''g10m''
        [(''B02'', cog_asset 10 600000 ''s3://s2/B02.tif''),
         (''B03'', cog_asset 10 700000 ''s3://s2/B03.tif'')]
     = Some (''B02'', cog_asset 10 600000 ''s3://s2/B02.tif'')
   \<and> map_of
        [(''default'', JObj [(''shape'', JArr [JInt 10980, JInt 10980]),
           (''transform'',
            JArr [JInt 10, JInt 0, JInt 600000, JInt 0, JInt (- 10), JInt 5900040])])]
        ''default''
     = Some (JObj [(''shape'', JArr [JInt 10980, JInt 10980]),
           (''transform'',
            JArr [JInt 10, JInt 0, JInt 600000, JInt 0, JInt (- 10), JInt 5900040])])
   \<and> descriptor (cog_asset 10 600000 ''s3://s2/B02.tif'')
     = Inr (JObj [(''shape'', JArr [JInt 10980, JInt 10980]),
           (''transform'',
            JArr [JInt 10, JInt 0, JInt 600000, JInt 0, JInt (- 10), JInt 5900040])])"
proof -
  let ?B = "[(''B02'', JObj [(''path'', JStr ''B02.tif'')]),
         (''B03'', JObj [(''path'', JStr ''B03.tif'')])]"
  let ?G = "[(''default'', JObj [(''shape'', JArr [JInt 10980, JInt 10980]),
           (''transform'',
            JArr [JInt 10, JInt 0, JInt 600000, JInt 0, JInt (- 10), JInt 5900040])])]"
  let ?A = "[(''B02'', cog_asset 10 600000 ''s3://s2/B02.tif''),
         (''B03'', cog_asset 10 700000 ''s3://s2/B03.tif'')]"
  have r: "get_stac_bands example_externals shifted_item ''g10m'' True = Inr (?B, ?G)"
    by (simp add: model_defs builtin_defs example_defs cong: and_then_weak_cong)
  have a: "getitem shifted_item ''assets'' = Inr (JObj ?A)"
    by (simp add: shifted_item_def item_of_def)
  have d: "distinct (map fst ?A)" by simp
  have m1: "(''B02'', cog_asset 10 600000 ''s3://s2/B02.tif'') \<in> set ?A"
    and m2: "(''B03'', cog_asset 10 700000 ''s3://s2/B03.tif'') \<in> set ?A"
    by simp_all
  have t1: "getitem (cog_asset 10 600000 ''s3://s2/B02.tif'') ''type'' = Inr COG"
    and t2: "getitem (cog_asset 10 700000 ''s3://s2/B03.tif'') ''type'' = Inr COG"
    by (simp_all add: cog_asset_def)
  from same_grid_iff_same_key [OF r a d m1 t1 m2 t2] obtain k1 k2 e1 e2 f1 d1 where
    k: "grid_key example_externals (cog_asset 10 600000 ''s3://s2/B02.tif'') = Inr k1"
       "grid_key example_externals (cog_asset 10 700000 ''s3://s2/B03.tif'') = Inr k2"
    and e: "band_grid ?B ''B02'' = Some e1" "band_grid ?B ''B03'' = Some e2"
    and iff: "e1 = e2 \<longleftrightarrow> k1 = k2"
    and c: "first_of_grid example_externals k1 ?A = Some f1" "descriptor (snd f1) = Inr d1"
       "map_of ?G e1 = Some d1"
    by blast
  from k have k1: "k1 = ''g10m''" and k2: "k2 = ''g10m''"
    by (simp_all add: grid_key_def cog_asset_def builtin_defs cong: and_then_weak_cong)
  with iff have same: "e1 = e2" by simp
  from e(1) have e1: "e1 = ''default''" by (simp add: band_grid_def)
  have kk: "grid_key example_externals (cog_asset 10 600000 ''s3://s2/B02.tif'') = Inr ''g10m''"
    using k(1) k1 by simp
  from c(1) k1 kk have f1: "f1 = (''B02'', cog_asset 10 600000 ''s3://s2/B02.tif'')"
    by (simp add: first_of_grid_def t1)
  from c(3) e1 have d1: "d1 = JObj [(''shape'', JArr [JInt 10980, JInt 10980]),
           (''transform'',
            JArr [JInt 10, JInt 0, JInt 600000, JInt 0, JInt (- 10), JInt 5900040])]"
    by simp
  from k k1 k2 e same e1 c f1 d1 show ?thesis by simp
qed

text \<open>
  Claim C9 as it is written says that \<^verbatim>\<open>_get_stac_bands\<close> raises the error of the
  default grid on every item none of whose assets has the grid key \<^verbatim>\<open>g10m\<close>. The loop
  over the assets comes first: an asset of 20 metres that has no \<^verbatim>\<open>href\<close> makes line 57
  raise the \<^verbatim>\<open>KeyError\<close> of \<^verbatim>\<open>href\<close>.
\<close>

theorem no_default_grid_counterexample:
  "grid_key example_externals no_href_asset = Inr ''g20m''
   \<and> getitem no_href_item ''assets'' = Inr (JObj [(''B05'', no_href_asset)])
   \<and> get_stac_bands example_externals no_href_item ''g10m'' True = Inl (KeyError (JStr ''href''))"
  by (simp add: item_of_def model_defs builtin_defs example_defs cong: and_then_weak_cong)

text \<open>
  Claim C9, amended. On an item none of whose cloud-optimized assets has the grid key
  \<^verbatim>\<open>g10m\<close> (an item without such assets included), \<^verbatim>\<open>_get_stac_bands\<close> always raises.
  When every asset is as the data model has it (it has a \<^verbatim>\<open>type\<close>, and a cloud-optimized
  one has a \<^verbatim>\<open>proj:transform\<close> with a grid key, a \<^verbatim>\<open>proj:shape\<close> and an \<^verbatim>\<open>href\<close>, a str
  where its file name is asked for), so that the loop over the assets raises nothing,
  the exception is the \<^verbatim>\<open>KeyError\<close> of \<^verbatim>\<open>g10m\<close> that line 70 raises, and \<^verbatim>\<open>stac_transform\<close>
  raises it in turn once the product lookup before it has returned.
\<close>

theorem no_default_grid_raises:
  assumes "getitem item ''assets'' = Inr (JObj assets)"
    and "\<forall>(n, a) \<in> set assets. getitem a ''type'' = Inr COG \<longrightarrow> grid_key E a \<noteq> Inr ''g10m''"
  shows "(\<exists>e. get_stac_bands E item ''g10m'' rel = Inl e)
       \<and> ((\<forall>(n, a) \<in> set assets. well_formed_asset E rel a) \<longrightarrow>
            get_stac_bands E item ''g10m'' rel = Inl (KeyError (JStr ''g10m''))
          \<and> (succeeds (stac_product_lookup E item) \<longrightarrow>
               stac_transform E item rel = Inl (KeyError (JStr ''g10m''))))"
proof -
  have fails: "\<exists>e. get_stac_bands E item ''g10m'' rel = Inl e"
  proof (cases "get_stac_bands E item ''g10m'' rel")
    case (Inl e)
    then show ?thesis by simp
  next
    case (Inr r)
    obtain bands grids where r: "r = (bands, grids)" by (cases r)
    from Inr [unfolded r] obtain assets' g gd where
      a: "getitem item ''assets'' = Inr (JObj assets')"
      and loop: "assets_loop (asset_step E ''g10m'' rel) assets' ([], []) = Inr (bands, g)"
      and gd: "map_of g ''g10m'' = Some gd"
      by (rule get_stac_bands_InrE)
    from a assms(1) have "assets' = assets" by simp
    with loop assms(2) have "map_of g ''g10m'' = None"
      using no_default_grid_loop by blast
    with gd show ?thesis by simp
  qed
  have key: "get_stac_bands E item ''g10m'' rel = Inl (KeyError (JStr ''g10m''))"
    if wf: "\<forall>(n, a) \<in> set assets. well_formed_asset E rel a"
  proof -
    from well_formed_loop [OF wf] obtain acc where
      loop: "assets_loop (asset_step E ''g10m'' rel) assets ([], []) = Inr acc"
      by blast
    obtain b g where acc: "acc = (b, g)" by (cases acc)
    from no_default_grid_loop [OF loop [unfolded acc] assms(2)]
    have "map_of g ''g10m'' = None" .
    with assms(1) loop acc show ?thesis
      by (simp add: get_stac_bands_def)
  qed
  have "stac_transform E item rel = Inl (KeyError (JStr ''g10m''))"
    if "get_stac_bands E item ''g10m'' rel = Inl (KeyError (JStr ''g10m''))"
      and "succeeds (stac_product_lookup E item)"
    using that by (auto simp: stac_transform_def succeeds_iff Let_def)
  with fails key show ?thesis by blast
qed

theorem no_default_grid_raises_witness:
  "get_stac_bands example_externals coarse_item ''g10m'' True = Inl (KeyError (JStr ''g10m''))
   \<and> stac_transform example_externals coarse_item True = Inl (KeyError (JStr ''g10m''))"
proof -
  let ?A = "[(''B05'', cog_asset 20 600000 ''s3://s2/B05.tif'')]"
  have a: "getitem coarse_item ''assets'' = Inr (JObj ?A)"
    by (simp add: coarse_item_def item_of_def)
  have k: "grid_key example_externals (cog_asset 20 600000 ''s3://s2/B05.tif'') = Inr ''g20m''"
    by (simp add: grid_key_def cog_asset_def builtin_defs cong: and_then_weak_cong)
  have n: "\<forall>(n, a) \<in> set ?A. getitem a ''type'' = Inr COG
             \<longrightarrow> grid_key example_externals a \<noteq> Inr ''g10m''"
    using k by simp
  have w: "\<forall>(n, a) \<in> set ?A. well_formed_asset example_externals True a"
    using k by (simp add: well_formed_asset_def succeeds_def) (simp add: cog_asset_def)
  have l: "succeeds (stac_product_lookup example_externals coarse_item)"
    by (simp add: coarse_item_def example_lookup succeeds_def)
  from no_default_grid_raises [OF a n, of True] w l show ?thesis by blast
qed

section \<open>The example scenario\<close>

lemma spacing_10_key:
  assumes "getitem a ''proj:transform'' = Inr (JArr (JInt 10 # rest))"
  shows "grid_key E a = Inr ''g10m''"
  using assms by (simp add: grid_key_def builtin_defs)

lemma sentinel_2_lookup:
  assumes "stac_product_lookup E item = Inr (label, name, region)"
    and "getitem item ''properties'' = Inr (JObj props)"
    and "map_of props ''constellation'' = Some (JStr ''sentinel-2'')"
    and "map_of props ''proj:epsg'' = Some (JInt 32633)"
    and "map_of props ''sentinel:latitude_band'' = Some (JStr ''U'')"
    and "map_of props ''sentinel:grid_square'' = Some (JStr ''XV'')"
  shows "name = JStr ''s2_l2a'' \<and> region = Some ''33UXV''"
  using assms unfolding stac_product_lookup_def
  by (auto simp: and_then_eq_Inr KNOWN_CONSTELLATIONS_def last_two_def str_int_def
      digits.simps digit_char_def)

lemma two_bands_of_the_default_grid:
  assumes "get_stac_bands E item ''g10m'' rel = Inr (bands, grids)"
    and "getitem item ''assets'' = Inr (JObj [(n1, a1), (n2, a2)])"
    and "getitem a1 ''type'' = Inr COG" and "grid_key E a1 = Inr ''g10m''"
    and "getitem a2 ''type'' = Inr COG" and "grid_key E a2 = Inr ''g10m''"
  shows "(\<exists>d. grids = [(''default'', d)])
       \<and> (\<forall>(n, b) \<in> set bands. \<exists>info. b = JObj info \<and> map_of info ''grid'' = None)"
proof -
  from assms(1) obtain assets g gd where
    a: "getitem item ''assets'' = Inr (JObj assets)"
    and loop: "assets_loop (asset_step E ''g10m'' rel) assets ([], []) = Inr (bands, g)"
    and gd: "map_of g ''g10m'' = Some gd"
    and grids: "grids = AList.delete ''g10m'' (AList.update ''default'' gd g)"
    by (rule get_stac_bands_InrE)
  from a assms(2) have assets: "assets = [(n1, a1), (n2, a2)]" by simp
  from loop [unfolded assets] obtain acc1 where
    s1: "asset_step E ''g10m'' rel (n1, a1) ([], []) = Inr acc1"
    and r1: "assets_loop (asset_step E ''g10m'' rel) [(n2, a2)] acc1 = Inr (bands, g)"
    by (rule assets_loop_Cons_InrE)
  obtain b1 g1 where acc1: "acc1 = (b1, g1)" by (cases acc1)
  from r1 [unfolded acc1] have s2: "asset_step E ''g10m'' rel (n2, a2) (b1, g1) = Inr (bands, g)"
    by (auto split: sum.splits)
  from s1 [unfolded acc1] obtain i1 where
    g1: "add_grid ''g10m'' a1 [] = Inr g1" and i1: "band_info ''g10m'' rel ''g10m'' a1 = Inr i1"
    and b1: "b1 = AList.update n1 i1 []"
    using assms(3,4) by (cases rule: asset_step_cases) simp_all
  from s2 obtain i2 where
    g2: "add_grid ''g10m'' a2 g1 = Inr g" and i2: "band_info ''g10m'' rel ''g10m'' a2 = Inr i2"
    and b2: "bands = AList.update n2 i2 b1"
    using assms(5,6) by (cases rule: asset_step_cases) simp_all
  from add_grid_cases [OF g1] obtain d where d: "g1 = [(''g10m'', d)]" by auto
  from add_grid_cases [OF g2] d have "g = [(''g10m'', d)]" by auto
  with gd grids have "grids = [(''default'', d)]" by simp
  moreover
  from i1 obtain f1 where f1: "i1 = JObj f1" "map_of f1 ''grid'' = None"
    by (rule band_info_grid) simp
  from i2 obtain f2 where f2: "i2 = JObj f2" "map_of f2 ''grid'' = None"
    by (rule band_info_grid) simp
  have "\<forall>(n, b) \<in> set bands. \<exists>info. b = JObj info \<and> map_of info ''grid'' = None"
  proof (intro ballI, clarify)
    fix n b assume "(n, b) \<in> set bands"
    with b2 have "(n, b) = (n2, i2) \<or> (n, b) \<in> set b1"
      using set_update_cases [of n b n2 i2 b1] by simp
    with b1 have "b = i2 \<or> b = i1" by auto
    with f1 f2 show "\<exists>info. b = JObj info \<and> map_of info ''grid'' = None" by auto
  qed
  ultimately show ?thesis by blast
qed

text \<open>
  Claim C5. The example of the specification names some fields of an item: the
  constellation \<^verbatim>\<open>sentinel-2\<close>, the platform \<^verbatim>\<open>Sentinel-2A\<close>, the EPSG code 32633, the
  latitude band \<^verbatim>\<open>U\<close>, the grid square \<^verbatim>\<open>XV\<close> and two cloud-optimized assets of pixel
  spacing 10. Whatever the other fields are, a document that \<^verbatim>\<open>stac_transform\<close> returns
  for such an item has the product name \<^verbatim>\<open>s2_l2a\<close>, the region code \<^verbatim>\<open>33UXV\<close>, one grid,
  which is \<^verbatim>\<open>default\<close>, and no band with a \<^verbatim>\<open>grid\<close>.
\<close>

theorem example_scenario:
  assumes "stac_transform E item rel = Inr doc"
    and "getitem item ''id'' = Inr (JStr ''S2A_item_1'')"
    and "getitem item ''properties'' = Inr (JObj props)"
    and "map_of props ''constellation'' = Some (JStr ''sentinel-2'')"
    and "map_of props ''platform'' = Some (JStr ''Sentinel-2A'')"
    and "map_of props ''proj:epsg'' = Some (JInt 32633)"
    and "map_of props ''sentinel:latitude_band'' = Some (JStr ''U'')"
    and "map_of props ''sentinel:grid_square'' = Some (JStr ''XV'')"
    and "getitem item ''assets'' = Inr (JObj [(n1, a1), (n2, a2)])"
    and "getitem a1 ''type'' = Inr COG"
    and "getitem a1 ''proj:transform'' = Inr (JArr (JInt 10 # rest1))"
    and "getitem a2 ''type'' = Inr COG"
    and "getitem a2 ''proj:transform'' = Inr (JArr (JInt 10 # rest2))"
  shows "output_field2 (Inr doc) ''product'' ''name'' = Inr (JStr ''s2_l2a'')
       \<and> output_field2 (Inr doc) ''properties'' ''odc:region_code'' = Inr (JStr ''33UXV'')
       \<and> (\<exists>d. output_field (Inr doc) ''grids'' = Inr (JObj [(''default'', d)]))
       \<and> (\<exists>bands. output_field (Inr doc) ''measurements'' = Inr (JObj bands)
            \<and> (\<forall>(n, b) \<in> set bands. \<exists>info. b = JObj info \<and> map_of info ''grid'' = None))"
proof -
  from assms(1) obtain label name region bands grids props' epsg geom lit where
    l: "stac_product_lookup E item = Inr (label, name, region)"
    and bg: "get_stac_bands E item ''g10m'' rel = Inr (bands, grids)"
    and lit: "stac_odc_literal (odc_uuid E ''sentinel-2_stac_process'' ''1.0.0'' [label])
       (''epsg:'' @ py_str E epsg) grids name label props' bands = Inr lit"
    and doc: "doc = JObj (add_optional region geom lit)"
    by (rule stac_transform_InrE)
  from sentinel_2_lookup [OF l assms(3,4,6,7,8)] have
    name: "name = JStr ''s2_l2a''" and region: "region = Some ''33UXV''"
    by simp_all
  from lit obtain nm ps where
    nm: "name = JStr nm"
    and prod': "map_of lit ''product'' = Some (JObj [(''name'', JStr (map lower_char nm))])"
    and g: "map_of lit ''grids'' = Some (JObj grids)"
    and m: "map_of lit ''measurements'' = Some (JObj bands)"
    and ps: "map_of lit ''properties'' = Some (JObj ps)"
    by (rule stac_odc_literal_InrE) simp
  from nm name have "nm = ''s2_l2a''" by simp
  then have "map lower_char nm = ''s2_l2a''"
    by (simp add: lower_char_def upper_case_def lower_case_def)
  with prod' have prod: "map_of lit ''product'' = Some (JObj [(''name'', JStr ''s2_l2a'')])"
    by simp
  have 1: "output_field2 (Inr doc) ''product'' ''name'' = Inr (JStr ''s2_l2a'')"
    using doc prod by (simp add: output_field2_def output_field_def map_of_add_optional_other)
  have 2: "output_field2 (Inr doc) ''properties'' ''odc:region_code'' = Inr (JStr ''33UXV'')"
    using doc region map_of_add_optional_properties [OF ps, of "Some ''33UXV''" geom]
    by (simp add: output_field2_def output_field_def update_conv')
  from two_bands_of_the_default_grid [OF bg assms(9) assms(10) spacing_10_key [OF assms(11)]
      assms(12) spacing_10_key [OF assms(13)]]
  obtain d where d: "grids = [(''default'', d)]"
    and nb: "\<forall>(n, b) \<in> set bands. \<exists>info. b = JObj info \<and> map_of info ''grid'' = None"
    by blast
  have 3: "output_field (Inr doc) ''grids'' = Inr (JObj [(''default'', d)])"
    using doc g d by (simp add: output_field_def map_of_add_optional_other)
  have 4: "output_field (Inr doc) ''measurements'' = Inr (JObj bands)"
    using doc m by (simp add: output_field_def map_of_add_optional_other)
  from 1 2 3 4 nb show ?thesis by blast
qed

text \<open>The example item, with the fields that the scenario leaves open filled in.\<close>

theorem example_scenario_witness:
  "output_field2 (stac_transform example_externals example_item True) ''product'' ''name''
     = Inr (JStr ''s2_l2a'')
   \<and> output_field2 (stac_transform example_externals example_item True)
        ''properties'' ''odc:region_code''
     = Inr (JStr ''33UXV'')
   \<and> output_field (stac_transform example_externals example_item True) ''grids''
     = Inr (JObj [(''default'', JObj [(''shape'', JArr [JInt 10980, JInt 10980]),
            (''transform'', JArr [JInt 10, JInt 0, JInt 600000, JInt 0, JInt (- 10), JInt 5900040])])])
   \<and> output_field (stac_transform example_externals example_item True) ''measurements''
     = Inr (JObj [(''B02'', JObj [(''path'', JStr ''B02.tif'')]),
                  (''B03'', JObj [(''path'', JStr ''B03.tif'')])])"
proof -
  let ?R = "stac_transform example_externals example_item True"
  obtain doc where d: "?R = Inr doc"
    using example_transform by blast
  have i: "getitem example_item ''id'' = Inr (JStr ''S2A_item_1'')"
    and p: "getitem example_item ''properties'' = Inr (JObj example_properties)"
    and a: "getitem example_item ''assets''
             = Inr (JObj [(''B02'', example_asset ''s3://s2/B02.tif''),
                          (''B03'', example_asset ''s3://s2/B03.tif'')])"
    by (simp_all add: example_item_def item_of_def example_assets_def)
  have ps: "map_of example_properties ''constellation'' = Some (JStr ''sentinel-2'')"
    "map_of example_properties ''platform'' = Some (JStr ''Sentinel-2A'')"
    "map_of example_properties ''proj:epsg'' = Some (JInt 32633)"
    "map_of example_properties ''sentinel:latitude_band'' = Some (JStr ''U'')"
    "map_of example_properties ''sentinel:grid_square'' = Some (JStr ''XV'')"
    by (simp_all add: example_properties_def)
  have t: "getitem (example_asset h) ''type'' = Inr COG"
    "getitem (example_asset h) ''proj:transform''
       = Inr (JArr (JInt 10 # [JInt 0, JInt 600000, JInt 0, JInt (- 10), JInt 5900040]))" for h
    by (simp_all add: example_asset_def cog_asset_def)
  have g: "output_field ?R ''grids''
     = Inr (JObj [(''default'', JObj [(''shape'', JArr [JInt 10980, JInt 10980]),
            (''transform'', JArr [JInt 10, JInt 0, JInt 600000, JInt 0, JInt (- 10), JInt 5900040])])])"
    by (simp add: output_field_def model_defs builtin_defs example_defs cong: and_then_weak_cong)
  have m: "output_field ?R ''measurements''
     = Inr (JObj [(''B02'', JObj [(''path'', JStr ''B02.tif'')]),
                  (''B03'', JObj [(''path'', JStr ''B03.tif'')])])"
    by (simp add: output_field_def model_defs builtin_defs example_defs cong: and_then_weak_cong)
  from example_scenario [OF d i p ps a t(1) t(2) t(1) t(2)] d g m show ?thesis
    by simp
qed

section \<open>The footprint of the result\<close>

lemma py_str_with_validity [simp]: "py_str (with_validity v E) x = py_str E x"
  by (cases x) (simp_all add: with_validity_def)

lemma format_g_with_validity [simp]: "format_g (with_validity v E) x = format_g E x"
  by (cases x) (simp_all add: with_validity_def)

lemma odc_uuid_with_validity [simp]: "odc_uuid (with_validity v E) = odc_uuid E"
  by (simp add: with_validity_def)

lemma lookup_with_validity [simp]:
  "stac_product_lookup (with_validity v E) item = stac_product_lookup E item"
  by (simp add: stac_product_lookup_def cong: if_cong)

lemma bands_with_validity [simp]:
  "get_stac_bands (with_validity v E) item dg rel = get_stac_bands E item dg rel"
proof -
  have "asset_step (with_validity v E) dg rel = asset_step E dg rel"
    by (simp add: fun_eq_iff asset_step_def grid_key_def cong: if_cong)
  then show ?thesis by (simp add: get_stac_bands_def)
qed

lemma projected_with_validity:
  "geographic_to_projected (with_validity v E) fp crs
     = (case to_crs E fp crs of
          Inl e \<Rightarrow> Inl e
        | Inr g \<Rightarrow> Inr (if v then Some (geometry_json g) else None))"
  by (simp add: geographic_to_projected_def with_validity_def geometry_json_def split: sum.splits)

lemma literal_keys:
  assumes "stac_odc_literal u crs grids name label props bands = Inr lit"
  shows "map_of lit ''geometry'' = None \<and> (\<exists>ps. map_of lit ''properties'' = Some (JObj ps))"
  using assms by (rule stac_odc_literal_InrE) simp

lemma add_optional_no_geometry:
  assumes "map_of lit ''geometry'' = None"
  shows "map_of (add_optional region None lit) ''geometry'' = None"
  using assms
  by (auto simp: add_optional_def set_nested_def update_conv' split: option.splits json.splits)

lemma add_optional_geometry:
  "add_optional region (Some (geometry_json g)) lit
     = AList.update ''geometry'' (geometry_json g) (add_optional region None lit)"
  by (simp add: add_optional_def geometry_json_def)

lemma delete_geometry:
  assumes "map_of lit ''geometry'' = None"
  shows "AList.delete ''geometry'' (add_optional region (Some (geometry_json g)) lit)
           = add_optional region None lit"
proof -
  from add_optional_no_geometry [OF assms]
  have "''geometry'' \<notin> fst ` set (add_optional region None lit)"
    by (simp add: map_of_eq_None_iff)
  then show ?thesis
    by (simp add: add_optional_geometry delete_update_same)
qed

text \<open>The \<^verbatim>\<open>geometry\<close> of a result.\<close>

lemma stac_transform_geometry:
  assumes "stac_transform E item rel = Inr doc"
  shows "\<exists>props epsg footprint g.
           getitem item ''properties'' = Inr props
         \<and> getitem props ''proj:epsg'' = Inr epsg
         \<and> getitem item ''geometry'' = Inr footprint
         \<and> to_crs E footprint (''epsg:'' @ py_str E epsg) = Inr g
         \<and> output_field (Inr doc) ''geometry''
             = (if is_valid g then Inr (geometry_json g) else Inl (KeyError (JStr ''geometry'')))"
proof -
  from assms obtain label name region bands grids props epsg fp geom lit where
    p: "getitem item ''properties'' = Inr props"
    and e: "getitem props ''proj:epsg'' = Inr epsg"
    and f: "getitem item ''geometry'' = Inr fp"
    and gp: "geographic_to_projected E fp (''epsg:'' @ py_str E epsg) = Inr geom"
    and lit: "stac_odc_literal (odc_uuid E ''sentinel-2_stac_process'' ''1.0.0'' [label])
       (''epsg:'' @ py_str E epsg) grids name label props bands = Inr lit"
    and doc: "doc = JObj (add_optional region geom lit)"
    by (rule stac_transform_InrE)
  from gp obtain g where g: "to_crs E fp (''epsg:'' @ py_str E epsg) = Inr g"
    and geom: "geom = (if is_valid g then Some (geometry_json g) else None)"
    by (auto simp: geographic_to_projected_def and_then_eq_Inr split: if_splits)
  from literal_keys [OF lit] have ng: "map_of lit ''geometry'' = None" by simp
  have "output_field (Inr doc) ''geometry''
             = (if is_valid g then Inr (geometry_json g) else Inl (KeyError (JStr ''geometry'')))"
  proof (cases "is_valid g")
    case True
    with geom doc show ?thesis
      by (simp add: output_field_def add_optional_geometry update_conv')
  next
    case False
    with geom doc add_optional_no_geometry [OF ng, of region] show ?thesis
      by (simp add: output_field_def)
  qed
  with p e f g show ?thesis by blast
qed

text \<open>A footprint that is not valid is no reason to fail.\<close>

lemma stac_transform_invalid:
  assumes "stac_transform (with_validity True E) item rel = Inr (JObj d)"
  shows "stac_transform (with_validity False E) item rel = Inr (JObj (AList.delete ''geometry'' d))"
proof -
  from assms obtain label name region bands grids props epsg fp geom lit where
    l: "stac_product_lookup E item = Inr (label, name, region)"
    and bg: "get_stac_bands E item ''g10m'' rel = Inr (bands, grids)"
    and p: "getitem item ''properties'' = Inr props"
    and e: "getitem props ''proj:epsg'' = Inr epsg"
    and f: "getitem item ''geometry'' = Inr fp"
    and gp: "geographic_to_projected (with_validity True E) fp (''epsg:'' @ py_str E epsg) = Inr geom"
    and lit: "stac_odc_literal (odc_uuid E ''sentinel-2_stac_process'' ''1.0.0'' [label])
       (''epsg:'' @ py_str E epsg) grids name label props bands = Inr lit"
    and doc: "JObj d = JObj (add_optional region geom lit)"
    by (rule stac_transform_InrE) simp
  from gp obtain g where g: "to_crs E fp (''epsg:'' @ py_str E epsg) = Inr g"
    and geom: "geom = Some (geometry_json g)"
    by (auto simp: projected_with_validity split: sum.splits)
  from g have gp': "geographic_to_projected (with_validity False E) fp (''epsg:'' @ py_str E epsg)
                     = Inr None"
    by (simp add: projected_with_validity)
  from literal_keys [OF lit] have ng: "map_of lit ''geometry'' = None" by simp
  from l bg p e f gp' lit
  have "stac_transform (with_validity False E) item rel = Inr (JObj (add_optional region None lit))"
    by (simp add: stac_transform_def)
  with doc geom delete_geometry [OF ng, of region g] show ?thesis by simp
qed

text \<open>
  Claim C4 as it is written says that \<^verbatim>\<open>stac_transform\<close> succeeds on every item whose
  projected footprint is not valid. Such an item can fail for another reason: this one
  has no asset of the default grid.
\<close>

theorem invalid_footprint_counterexample:
  "to_crs example_externals degenerate_footprint ''epsg:32633''
     = Inr \<lparr>is_valid = False, geo_type = ''Polygon'', geo_coordinates = JArr []\<rparr>
   \<and> stac_transform example_externals degenerate_coarse_item True
     = Inl (KeyError (JStr ''g10m''))"
  by (simp add: model_defs builtin_defs example_defs cong: and_then_weak_cong)

text \<open>
  Claim C4, amended. A document that \<^verbatim>\<open>stac_transform\<close> returns has a \<^verbatim>\<open>geometry\<close> if and
  only if the projected footprint is valid, and then it is that footprint. A footprint
  that is not valid is no reason to fail: where \<^verbatim>\<open>stac_transform\<close> succeeds with a
  geometry library that calls the projected footprint valid, it succeeds with one that
  calls it invalid, and returns the same document without \<^verbatim>\<open>geometry\<close>.
\<close>

theorem invalid_footprint_is_dropped:
  "(stac_transform E item rel = Inr doc \<longrightarrow>
      (\<exists>props epsg footprint g.
           getitem item ''properties'' = Inr props
         \<and> getitem props ''proj:epsg'' = Inr epsg
         \<and> getitem item ''geometry'' = Inr footprint
         \<and> to_crs E footprint (''epsg:'' @ py_str E epsg) = Inr g
         \<and> output_field (Inr doc) ''geometry''
             = (if is_valid g then Inr (geometry_json g) else Inl (KeyError (JStr ''geometry'')))))
   \<and> (stac_transform (with_validity True E) item rel = Inr (JObj d) \<longrightarrow>
        stac_transform (with_validity False E) item rel
          = Inr (JObj (AList.delete ''geometry'' d)))"
  using stac_transform_geometry stac_transform_invalid by blast

text \<open>An item whose footprint has no coordinates.\<close>

theorem invalid_footprint_is_dropped_witness:
  "succeeds (stac_transform example_externals degenerate_item True)
   \<and> output_field (stac_transform example_externals degenerate_item True) ''geometry''
     = Inl (KeyError (JStr ''geometry''))
   \<and> output_field (stac_transform (with_validity True example_externals) degenerate_item True)
        ''geometry''
     = Inr (JObj [(''type'', JStr ''Polygon''), (''coordinates'', JArr [])])
   \<and> output_field (stac_transform (with_validity False example_externals) degenerate_item True)
        ''geometry''
     = Inl (KeyError (JStr ''geometry''))"
proof -
  obtain doc where d: "stac_transform example_externals degenerate_item True = Inr doc"
    by (simp add: model_defs builtin_defs example_defs cong: and_then_weak_cong)
  obtain v where v: "stac_transform (with_validity True example_externals) degenerate_item True
                       = Inr (JObj v)"
    by (simp add: model_defs builtin_defs example_defs with_validity_def cong: and_then_weak_cong)
  have vg: "output_field (stac_transform (with_validity True example_externals) degenerate_item True)
        ''geometry''
     = Inr (JObj [(''type'', JStr ''Polygon''), (''coordinates'', JArr [])])"
    by (simp add: output_field_def model_defs builtin_defs example_defs with_validity_def
        cong: and_then_weak_cong)
  from invalid_footprint_is_dropped [of example_externals degenerate_item True doc v] d v
  obtain props epsg footprint g where
    a: "getitem degenerate_item ''properties'' = Inr props"
       "getitem props ''proj:epsg'' = Inr epsg"
       "getitem degenerate_item ''geometry'' = Inr footprint"
       "to_crs example_externals footprint (''epsg:'' @ py_str example_externals epsg) = Inr g"
    and b: "output_field (Inr doc) ''geometry''
             = (if is_valid g then Inr (geometry_json g) else Inl (KeyError (JStr ''geometry'')))"
    and c: "stac_transform (with_validity False example_externals) degenerate_item True
          = Inr (JObj (AList.delete ''geometry'' v))"
    by blast
  from a have "\<not> is_valid g"
    by (auto simp: degenerate_item_def item_of_def degenerate_footprint_def example_externals_def
        example_to_crs_def)
  with b have 1: "output_field (Inr doc) ''geometry'' = Inl (KeyError (JStr ''geometry''))"
    by simp
  have 2: "output_field (Inr (JObj (AList.delete ''geometry'' v))) ''geometry''
             = Inl (KeyError (JStr ''geometry''))"
    by (simp add: output_field_def delete_conv')
  from d 1 vg c 2 show ?thesis by (simp add: succeeds_def)
qed

section \<open>Missing properties\<close>

lemma getitem_absent: "map_of kvs k = None \<Longrightarrow> getitem (JObj kvs) k = Inl (KeyError (JStr k))"
  by simp

lemma getitem_present: "map_of kvs k = Some v \<Longrightarrow> getitem (JObj kvs) k = Inr v"
  by simp

lemma lookup_error:
  assumes "getitem item ''properties'' = Inr (JObj props)"
    and "succeeds (getitem item ''id'')"
    and "stac_product_lookup E item = Inl e"
  shows "\<exists>k. map_of props k = None \<and> e = KeyError (JStr k)"
proof -
  from assms(2) obtain ident where i: "getitem item ''id'' = Inr ident"
    by (auto simp: succeeds_iff)
  from assms(3) show ?thesis
    unfolding stac_product_lookup_def
    by (auto simp: assms(1) i and_then_eq_Inl split: option.splits if_splits)
qed

lemma lookup_platform:
  assumes "getitem item ''properties'' = Inr (JObj props)"
    and "stac_product_lookup E item = Inr (label, name, region)"
  shows "\<exists>v. map_of props ''platform'' = Some v \<and> (name = v \<or> name = JStr ''s2_l2a'')"
  using assms(2) unfolding stac_product_lookup_def
  by (auto simp: assms(1) and_then_eq_Inr split: option.splits if_splits)

lemma literal_error:
  assumes "name = JStr nm"
    and "\<forall>v. map_of props ''datetime'' = Some v \<longrightarrow> (\<exists>s. v = JStr s)"
    and "k \<in> {''datetime'', ''eo:cloud_cover'', ''gsd'', ''instruments''}"
    and "map_of props k = None"
  shows "\<exists>k'. map_of props k' = None
           \<and> stac_odc_literal u crs grids name label (JObj props) bands = Inl (KeyError (JStr k'))"
proof (cases "map_of props ''datetime''")
  case None
  with assms(1) show ?thesis
    by (intro exI [of _ "''datetime''"]) (simp add: stac_odc_literal_def)
next
  case (Some dt)
  with assms(2) obtain s where dt: "map_of props ''datetime'' = Some (JStr s)" by auto
  show ?thesis
  proof (cases "map_of props ''eo:cloud_cover''")
    case None
    with assms(1) dt show ?thesis
      by (intro exI [of _ "''eo:cloud_cover''"]) (simp add: stac_odc_literal_def)
  next
    case cc: (Some c)
    show ?thesis
    proof (cases "map_of props ''gsd''")
      case None
      with assms(1) dt cc show ?thesis
        by (intro exI [of _ "''gsd''"]) (simp add: stac_odc_literal_def)
    next
      case gsd: (Some g)
      from assms(3,4) dt cc gsd have "map_of props ''instruments'' = None" by auto
      with assms(1) dt cc gsd show ?thesis
        by (intro exI [of _ "''instruments''"]) (simp add: stac_odc_literal_def)
    qed
  qed
qed

lemma always_required_cases:
  assumes "k \<in> set always_required"
    and "P ''datetime''" and "P ''eo:cloud_cover''" and "P ''gsd''" and "P ''instruments''"
    and "P ''platform''" and "P ''proj:epsg''"
  shows "P k"
  using assms by (auto simp: always_required_def)

lemma missing_property_fails:
  assumes "getitem item ''properties'' = Inr (JObj props)"
    and "k \<in> set always_required"
    and "map_of props k = None"
  shows "\<exists>e. stac_transform E item rel = Inl e"
proof (cases "stac_transform E item rel")
  case (Inl e)
  then show ?thesis by simp
next
  case (Inr doc)
  then obtain label name region bands grids props' epsg lit where
    l: "stac_product_lookup E item = Inr (label, name, region)"
    and p: "getitem item ''properties'' = Inr props'"
    and e: "getitem props' ''proj:epsg'' = Inr epsg"
    and lit: "stac_odc_literal (odc_uuid E ''sentinel-2_stac_process'' ''1.0.0'' [label])
       (''epsg:'' @ py_str E epsg) grids name label props' bands = Inr lit"
    by (rule stac_transform_InrE)
  from p assms(1) have props': "props' = JObj props" by simp
  from lookup_platform [OF assms(1) l] have 1: "map_of props ''platform'' \<noteq> None" by auto
  from e props' have 2: "map_of props ''proj:epsg'' \<noteq> None"
    by (auto split: option.splits)
  from lit [unfolded props'] obtain s cloud gsd ins where
    "getitem (JObj props) ''datetime'' = Inr (JStr s)"
    "getitem (JObj props) ''eo:cloud_cover'' = Inr cloud"
    "getitem (JObj props) ''gsd'' = Inr gsd"
    "getitem (JObj props) ''instruments'' = Inr ins"
    by (rule stac_odc_literal_InrE)
  then have 3: "map_of props ''datetime'' \<noteq> None"
    "map_of props ''eo:cloud_cover'' \<noteq> None" "map_of props ''gsd'' \<noteq> None"
    "map_of props ''instruments'' \<noteq> None"
    by (auto simp only: getitem_JObj)
  have "map_of props k \<noteq> None"
    by (rule always_required_cases [OF assms(2)]) (fact 1 2 3)+
  with assms(3) show ?thesis by simp
qed

text \<open>
  Claim C8 as it is written says that an item without one of the six properties makes
  \<^verbatim>\<open>stac_transform\<close> raise the error of a missing field. What is raised is the first
  exception in the order of evaluation: an item without \<^verbatim>\<open>datetime\<close> and without an
  asset of the default grid gets the \<^verbatim>\<open>KeyError\<close> of \<^verbatim>\<open>g10m\<close> from \<^verbatim>\<open>_get_stac_bands\<close>,
  and an item without \<^verbatim>\<open>gsd\<close> whose \<^verbatim>\<open>datetime\<close> is \<^verbatim>\<open>None\<close> gets an \<^verbatim>\<open>AttributeError\<close>.
\<close>

theorem missing_property_counterexample:
  "map_of (AList.delete ''datetime'' example_properties) ''datetime'' = None
   \<and> stac_transform example_externals
        (item_of (AList.delete ''datetime'' example_properties)
           [(''B05'', cog_asset 20 600000 ''s3://s2/B05.tif'')] example_footprint) True
     = Inl (KeyError (JStr ''g10m''))
   \<and> map_of (AList.update ''datetime'' JNull (AList.delete ''gsd'' example_properties)) ''gsd''
     = None
   \<and> stac_transform example_externals
        (item_of (AList.update ''datetime'' JNull (AList.delete ''gsd'' example_properties))
           example_assets example_footprint) True
     = Inl AttributeError"
  by (simp add: model_defs builtin_defs example_defs cong: and_then_weak_cong)

text \<open>
  Claim C8, amended. An item whose properties lack \<^verbatim>\<open>datetime\<close>, \<^verbatim>\<open>eo:cloud_cover\<close>,
  \<^verbatim>\<open>gsd\<close>, \<^verbatim>\<open>instruments\<close>, \<^verbatim>\<open>platform\<close> or \<^verbatim>\<open>proj:epsg\<close> always makes \<^verbatim>\<open>stac_transform\<close>
  raise. The exception is the \<^verbatim>\<open>KeyError\<close> of a property that the item lacks when
  nothing else goes wrong before: the item has an \<^verbatim>\<open>id\<close>, \<^verbatim>\<open>_get_stac_bands\<close> succeeds,
  the footprint is there and can be projected, and \<^verbatim>\<open>platform\<close> and \<^verbatim>\<open>datetime\<close>, where
  present, are strings.
\<close>

theorem missing_property_raises:
  assumes "getitem item ''properties'' = Inr (JObj props)"
    and "k \<in> set always_required"
    and "map_of props k = None"
  shows "(\<exists>e. stac_transform E item rel = Inl e)
       \<and> (succeeds (getitem item ''id'')
          \<and> succeeds (get_stac_bands E item ''g10m'' rel)
          \<and> (\<exists>footprint. getitem item ''geometry'' = Inr footprint
                \<and> (\<forall>crs. succeeds (to_crs E footprint crs)))
          \<and> (\<forall>v. map_of props ''platform'' = Some v \<longrightarrow> (\<exists>s. v = JStr s))
          \<and> (\<forall>v. map_of props ''datetime'' = Some v \<longrightarrow> (\<exists>s. v = JStr s))
          \<longrightarrow> (\<exists>k'. map_of props k' = None
                 \<and> stac_transform E item rel = Inl (KeyError (JStr k'))))"
proof (intro conjI impI, goal_cases)
  case 1
  from assms show ?case by (rule missing_property_fails)
next
  case 2
  then obtain fp where
    i: "succeeds (getitem item ''id'')"
    and b: "succeeds (get_stac_bands E item ''g10m'' rel)"
    and f: "getitem item ''geometry'' = Inr fp"
    and t: "\<forall>crs. succeeds (to_crs E fp crs)"
    and pl: "\<forall>v. map_of props ''platform'' = Some v \<longrightarrow> (\<exists>s. v = JStr s)"
    and dt: "\<forall>v. map_of props ''datetime'' = Some v \<longrightarrow> (\<exists>s. v = JStr s)"
    by blast
  show ?case
  proof (cases "stac_product_lookup E item")
    case (Inl e)
    from lookup_error [OF assms(1) i Inl] obtain k' where
      "map_of props k' = None" "e = KeyError (JStr k')" by blast
    with Inl show ?thesis by (auto simp: stac_transform_def)
  next
    case (Inr r)
    obtain label name region where r: "r = (label, name, region)" by (cases r)
    from b obtain bands grids where bg: "get_stac_bands E item ''g10m'' rel = Inr (bands, grids)"
      by (auto simp: succeeds_iff)
    from lookup_platform [OF assms(1) Inr [unfolded r]] pl obtain nm where
      nm: "name = JStr nm" and pp: "map_of props ''platform'' \<noteq> None"
      by auto
    show ?thesis
    proof (cases "map_of props ''proj:epsg''")
      case None
      with Inr r bg assms(1) have
        "stac_transform E item rel = Inl (KeyError (JStr ''proj:epsg''))"
        by (simp add: stac_transform_def)
      with None show ?thesis by blast
    next
      case (Some epsg)
      from t obtain g where g: "to_crs E fp (''epsg:'' @ py_str E epsg) = Inr g"
        by (auto simp: succeeds_iff)
      then have "geographic_to_projected E fp (''epsg:'' @ py_str E epsg)
                   = Inr (if is_valid g then Some (geometry_json g) else None)"
        by (simp add: geographic_to_projected_def)
      then obtain geom where
        gp: "geographic_to_projected E fp (''epsg:'' @ py_str E epsg) = Inr geom"
        by blast
      from assms(3) pp Some have "k \<noteq> ''platform''" "k \<noteq> ''proj:epsg''"
        by auto
      moreover have "k = ''platform'' \<or> k = ''proj:epsg''
             \<or> k \<in> {''datetime'', ''eo:cloud_cover'', ''gsd'', ''instruments''}"
        by (rule always_required_cases [OF assms(2)]) simp_all
      ultimately have "k \<in> {''datetime'', ''eo:cloud_cover'', ''gsd'', ''instruments''}"
        by simp
      from literal_error [OF nm dt this assms(3)] obtain k' where
        k': "map_of props k' = None"
        and le: "stac_odc_literal (odc_uuid E ''sentinel-2_stac_process'' ''1.0.0'' [label])
          (''epsg:'' @ py_str E epsg) grids name label (JObj props) bands
            = Inl (KeyError (JStr k'))"
        by blast
      from Inr r bg assms(1) Some f gp le
      have "stac_transform E item rel = Inl (KeyError (JStr k'))"
        by (simp add: stac_transform_def)
      with k' show ?thesis by blast
    qed
  qed
qed

text \<open>The example item without \<^verbatim>\<open>gsd\<close>.\<close>

theorem missing_property_raises_witness:
  "map_of (AList.delete ''gsd'' example_properties) ''gsd'' = None
   \<and> stac_transform example_externals
        (item_of (AList.delete ''gsd'' example_properties) example_assets example_footprint) True
     = Inl (KeyError (JStr ''gsd''))"
proof -
  let ?props = "AList.delete ''gsd'' example_properties"
  let ?item = "item_of ?props example_assets example_footprint"
  have p: "getitem ?item ''properties'' = Inr (JObj ?props)"
    by (simp add: item_of_def)
  have k: "''gsd'' \<in> set always_required"
    by (simp add: always_required_def)
  have n: "map_of ?props ''gsd'' = None"
    by (simp add: example_properties_def)
  have i: "succeeds (getitem ?item ''id'')"
    by (simp add: item_of_def succeeds_def)
  have b: "succeeds (get_stac_bands example_externals ?item ''g10m'' True)"
    by (simp add: succeeds_def item_of_def get_stac_bands_def asset_step_def grid_key_def
        add_grid_def band_info_def COG_def builtin_defs example_assets_def example_asset_def
        cog_asset_def cong: and_then_weak_cong)
  have f: "\<exists>footprint. getitem ?item ''geometry'' = Inr footprint
             \<and> (\<forall>crs. succeeds (to_crs example_externals footprint crs))"
    by (simp add: item_of_def example_externals_def example_to_crs_def example_footprint_def
        succeeds_def)
  have s: "(\<forall>v. map_of ?props ''platform'' = Some v \<longrightarrow> (\<exists>s. v = JStr s))
         \<and> (\<forall>v. map_of ?props ''datetime'' = Some v \<longrightarrow> (\<exists>s. v = JStr s))"
    by (simp add: example_properties_def)
  from missing_property_raises [OF p k n, of example_externals True] i b f s
  obtain k' where "stac_transform example_externals ?item True = Inl (KeyError (JStr k'))"
    by blast
  moreover have "stac_transform example_externals ?item True = Inl (KeyError (JStr ''gsd''))"
    by (simp add: model_defs builtin_defs example_defs cong: and_then_weak_cong)
  ultimately show ?thesis using n by simp
qed

end
